theory Spec2Isabelle
  imports Main "HOL-Library.AList"
begin

section \<open>Python values, exceptions and strings\<close>

text \<open>
  The programme is Python. Its dictionaries and JSON payloads are modelled by the datatype
  \<open>pyval\<close>; a dictionary is an association list in insertion order, updated in place by
  \<open>AList.update\<close> exactly as \<^verbatim>\<open>d[k] = v\<close> does. An exception is a value of \<open>exn\<close>; since the
  source only ever formats a caught exception with \<^verbatim>\<open>str(e)\<close>, the constructor carries that
  text. String literals of the source are written without their diacritics and without the
  emoji prefixes of some log lines, \<open>string\<close> being a list of 8-bit characters. Numbers that
  are not integers are left out of \<open>pyval\<close>: like an integer they have neither a length nor a
  \<^verbatim>\<open>get\<close> method, and nothing below depends on their value.
\<close>

datatype pyval =
    PNone
  | PBool bool
  | PInt int
  | PStr string
  | PList "pyval list"
  | PDict "(string \<times> pyval) list"

type_synonym pydict = "(string \<times> pyval) list"

datatype exn =
    RuntimeError string
  | TypeError string
  | AttributeError string
  | ValueError string
  | OSError string
  | OtherError string

fun exn_str :: "exn \<Rightarrow> string" where
  "exn_str (RuntimeError m) = m"
| "exn_str (TypeError m) = m"
| "exn_str (AttributeError m) = m"
| "exn_str (ValueError m) = m"
| "exn_str (OSError m) = m"
| "exn_str (OtherError m) = m"

definition digit_char :: "nat \<Rightarrow> char" where
  "digit_char d = ''0123456789'' ! d"

function str_nat :: "nat \<Rightarrow> string" where
  "str_nat n = (if n < 10 then [digit_char n] else str_nat (n div 10) @ [digit_char (n mod 10)])"
  by pat_completeness auto
termination
  by (relation "measure id") auto

declare str_nat.simps [simp del]

definition str_int :: "int \<Rightarrow> string" where
  "str_int i = (if i < 0 then CHR ''-'' # str_nat (nat (- i)) else str_nat (nat i))"

text \<open>\<^verbatim>\<open>str.lower()\<close> on the letters A to Z; a name with other cased letters is outside this
  function.\<close>

definition lower_char :: "char \<Rightarrow> char" where
  "lower_char c =
     (let n = (of_char c :: nat) in if 65 \<le> n \<and> n \<le> 90 then char_of (n + 32) else c)"

definition lower :: "string \<Rightarrow> string" where
  "lower s = map lower_char s"

section \<open>The stage executor: \<open>IPTaskManager.execute_task\<close> (tasks/ip_tasks.py)\<close>

text \<open>
  A tool is an object with a class, an optional \<^verbatim>\<open>name\<close> attribute and a method \<^verbatim>\<open>_run\<close>.
  What \<^verbatim>\<open>_run\<close> does is outside the repository's control, so it is an oracle: the outcome of
  the call made at a given attempt on a given input, which either raises or returns. A
  returned object that is not a \<^verbatim>\<open>str\<close> is described by what \<^verbatim>\<open>json.dumps\<close> makes of it
  (\<open>None\<close> when \<^verbatim>\<open>json.dumps\<close> raises) and by its \<^verbatim>\<open>str()\<close>.
\<close>

datatype tool_out = OutStr string | OutObj "string option" string

datatype run_result = Raises exn | Returns tool_out

record tool =
  tool_class :: string
  tool_bases :: "string list"
  tool_name :: "string option"
  tool_run :: "nat \<Rightarrow> string \<Rightarrow> run_result"

record agent =
  agent_tools :: "tool list"

record task =
  task_agent :: "agent option"

text \<open>The executor's observable actions: calls of \<^verbatim>\<open>_run\<close> and \<^verbatim>\<open>time.sleep(0.2)\<close>, in
  milliseconds.\<close>

datatype event = Invoked nat | Slept nat

definition isinstance :: "tool \<Rightarrow> string \<Rightarrow> bool" where
  "isinstance t c \<longleftrightarrow> c = tool_class t \<or> c \<in> set (tool_bases t)"

definition name_matches :: "string \<Rightarrow> tool \<Rightarrow> bool" where
  "name_matches pref t \<longleftrightarrow>
     (case tool_name t of
        Some n \<Rightarrow> (n \<noteq> [] \<and> lower n = lower pref) \<or> lower (tool_class t) = lower pref
      | None \<Rightarrow> lower (tool_class t) = lower pref)"

definition choose_tool :: "tool list \<Rightarrow> string option \<Rightarrow> string option \<Rightarrow> tool option" where
  "choose_tool tools preferred_tool_cls preferred_tool_name =
     (let chosen = (case preferred_tool_cls of
                      Some c \<Rightarrow> find (\<lambda>t. isinstance t c) tools
                    | None \<Rightarrow> None);
          chosen = (case chosen of
                      Some t \<Rightarrow> Some t
                    | None \<Rightarrow> (case preferred_tool_name of
                                 Some p \<Rightarrow> if p \<noteq> [] then find (name_matches p) tools else None
                               | None \<Rightarrow> None))
      in case chosen of
           Some t \<Rightarrow> Some t
         | None \<Rightarrow> (case tools of [] \<Rightarrow> None | t # _ \<Rightarrow> Some t))"

fun normalise :: "tool_out \<Rightarrow> string" where
  "normalise (OutStr s) = s"
| "normalise (OutObj (Some js) _) = js"
| "normalise (OutObj None s) = s"

text \<open>The body of \<^verbatim>\<open>for attempt in range(1, max(1, retries) + 1)\<close>: \<open>a\<close> is the attempt
  number, \<open>n\<close> the number of attempts left. The loop ends with the first attempt that returns, or
  with \<open>Inl last_exc\<close> when the range is used up.\<close>

fun attempts :: "tool \<Rightarrow> string \<Rightarrow> nat \<Rightarrow> nat \<Rightarrow> exn option \<Rightarrow> (exn option + string) \<times> event list" where
  "attempts t input_str a 0 last_exc = (Inl last_exc, [])"
| "attempts t input_str a (Suc n) last_exc =
     (case tool_run t a input_str of
        Returns out \<Rightarrow> (Inr (normalise out), [Invoked a])
      | Raises e \<Rightarrow>
          (case attempts t input_str (Suc a) n (Some e) of
             (r, evs) \<Rightarrow> (r, Invoked a # Slept 200 # evs)))"

definition str_exn_opt :: "exn option \<Rightarrow> string" where
  "str_exn_opt e = (case e of None \<Rightarrow> ''None'' | Some x \<Rightarrow> exn_str x)"

definition execute_task ::
  "task \<Rightarrow> string \<Rightarrow> string option \<Rightarrow> string option \<Rightarrow> int \<Rightarrow> (exn + string) \<times> event list" where
  "execute_task tsk input_str preferred_tool_cls preferred_tool_name retries =
     (case task_agent tsk of
        None \<Rightarrow> (Inl (RuntimeError ''Task nao possui agent associado''), [])
      | Some ag \<Rightarrow>
          (case choose_tool (agent_tools ag) preferred_tool_cls preferred_tool_name of
             None \<Rightarrow> (Inl (RuntimeError ''Agent nao possui ferramenta executavel''), [])
           | Some chosen \<Rightarrow>
               (case attempts chosen input_str 1 (nat (max 1 retries)) None of
                  (Inr out, evs) \<Rightarrow> (Inr out, evs)
                | (Inl last_exc, evs) \<Rightarrow>
                    (Inl (RuntimeError (''Falha ao executar a task apos '' @ str_int retries
                            @ '' tentativas: '' @ str_exn_opt last_exc)), evs))))"

definition count_invoked :: "event list \<Rightarrow> nat" where
  "count_invoked evs = length (filter (\<lambda>e. case e of Invoked _ \<Rightarrow> True | Slept _ \<Rightarrow> False) evs)"

section \<open>Raw results: \<open>BuscapiDB.insert_search_result_raw\<close> (database/persist_dados.py)\<close>

text \<open>
  The table \<^verbatim>\<open>search_result_raw\<close> is a list of rows with the counter of its \<^verbatim>\<open>id\<close> sequence.
  A row keeps the dictionary whose serialisation the source stores in \<^verbatim>\<open>raw_json\<close>; the
  duplicate check \<^verbatim>\<open>raw_json::jsonb @> '{"_hash": h}'\<close> holds of a row exactly when its
  dictionary has the key \<^verbatim>\<open>_hash\<close> with the string \<open>h\<close>. The hash itself,
  \<^verbatim>\<open>sha256(json.dumps(raw_data, sort_keys=True, ensure_ascii=False))\<close>, is a parameter
  \<open>content_hash\<close>, \<open>None\<close> when \<^verbatim>\<open>json.dumps\<close> raises. The connection may raise at any of the
  four calls inside the \<^verbatim>\<open>try\<close>, which \<open>db_fault\<close> names. The connection is opened with
  \<^verbatim>\<open>autocommit = True\<close>, so an executed \<^verbatim>\<open>INSERT\<close> is durable at once and \<^verbatim>\<open>rollback()\<close> in the
  handler changes no row; but \<^verbatim>\<open>rollback()\<close> is called outside every \<^verbatim>\<open>try\<close> and raises on a
  closed or lost connection: \<open>rollback_raises\<close> is the exception it raises, if any.
\<close>

record raw_row =
  row_id :: int
  row_query :: int
  row_source :: string
  row_json :: pydict

record raw_table =
  rows :: "raw_row list"
  next_id :: int

datatype db_fault = AtCursor | AtSelect | AtInsert | AtCommit

definition has_hash :: "string \<Rightarrow> raw_row \<Rightarrow> bool" where
  "has_hash h r \<longleftrightarrow> map_of (row_json r) ''_hash'' = Some (PStr h)"

definition select_existing :: "raw_table \<Rightarrow> int \<Rightarrow> string \<Rightarrow> raw_row option" where
  "select_existing tbl search_query_id h =
     find (\<lambda>r. row_query r = search_query_id \<and> has_hash h r) (rows tbl)"

text \<open>The \<^verbatim>\<open>except Exception\<close> handler: \<^verbatim>\<open>self.conn.rollback()\<close>, then \<^verbatim>\<open>return -1\<close>.\<close>

definition rollback_then_fail :: "exn option \<Rightarrow> exn + int" where
  "rollback_then_fail rollback_raises =
     (case rollback_raises of Some e \<Rightarrow> Inl e | None \<Rightarrow> Inr (- 1))"

text \<open>The result is the returned integer or the exception that leaves the call, the caller's
  dictionary as the call leaves it, and the table.\<close>

definition insert_search_result_raw ::
  "(pydict \<Rightarrow> string option) \<Rightarrow> db_fault option \<Rightarrow> exn option \<Rightarrow> raw_table \<Rightarrow> int \<Rightarrow> string
     \<Rightarrow> pydict \<Rightarrow> (exn + int) \<times> pydict \<times> raw_table" where
  "insert_search_result_raw content_hash fault rollback_raises tbl search_query_id source raw_data =
     (case content_hash raw_data of
        None \<Rightarrow> (rollback_then_fail rollback_raises, raw_data, tbl)
      | Some item_hash \<Rightarrow>
          (let raw_data' = AList.update ''_hash'' (PStr item_hash) raw_data in
           if fault = Some AtCursor then (rollback_then_fail rollback_raises, raw_data', tbl)
           else if fault = Some AtSelect then (rollback_then_fail rollback_raises, raw_data', tbl)
           else
             (case select_existing tbl search_query_id item_hash of
                Some existing \<Rightarrow> (Inr (row_id existing), raw_data', tbl)
              | None \<Rightarrow>
                  if fault = Some AtInsert
                  then (rollback_then_fail rollback_raises, raw_data', tbl)
                  else
                    (let new_row = \<lparr>row_id = next_id tbl, row_query = search_query_id,
                                     row_source = source, row_json = raw_data'\<rparr>;
                         tbl' = tbl\<lparr>rows := rows tbl @ [new_row], next_id := next_id tbl + 1\<rparr>
                     in if fault = Some AtCommit
                        then (rollback_then_fail rollback_raises, raw_data', tbl')
                        else (Inr (next_id tbl), raw_data', tbl')))))"

definition matching_rows :: "raw_table \<Rightarrow> int \<Rightarrow> string \<Rightarrow> raw_row list" where
  "matching_rows tbl q h = filter (\<lambda>r. row_query r = q \<and> has_hash h r) (rows tbl)"

text \<open>The uniqueness invariant of the table: at most one row for each pair of a query id and
  a hash.\<close>

definition unique_hashes :: "raw_table \<Rightarrow> bool" where
  "unique_hashes tbl \<longleftrightarrow> (\<forall>q h. length (matching_rows tbl q h) \<le> 1)"

definition empty_table :: raw_table where
  "empty_table = \<lparr>rows = [], next_id = 1\<rparr>"

section \<open>The environment and the world\<close>

text \<open>
  Everything the programme reads from outside is a field of \<open>env\<close>: the clock (the text of the
  \<open>n\<close>-th reading of \<^verbatim>\<open>datetime.utcnow()\<close>, as \<^verbatim>\<open>isoformat()\<close> and as
  \<^verbatim>\<open>strftime('%Y%m%d_%H%M%S')\<close>), \<^verbatim>\<open>uuid4()\<close>, the outcome of the \<open>n\<close>-th write of a job file
  and of the \<open>n\<close>-th statement sent over the flow's database connection (\<open>None\<close> when it
  succeeds, the exception otherwise), \<^verbatim>\<open>json.loads\<close> (\<open>None\<close> for a
  \<^verbatim>\<open>JSONDecodeError\<close>), \<^verbatim>\<open>json.dumps\<close> and \<^verbatim>\<open>str()\<close> on values, the rendering collaborator
  \<^verbatim>\<open>PDFReportTool()._run\<close>, whether plotly turns one visualisation into an image file,
  \<^verbatim>\<open>pathlib\<close>'s join of a directory with a name that has a slash in it, whether
  the worker's own database connection works, the agents with their tools, and the attribute
  \<^verbatim>\<open>last_used_llm_model\<close> of the agents object (\<open>PNone\<close> when it is not there).

  Everything the programme changes is a field of \<open>world\<close>: the index \<^verbatim>\<open>_jobs\<close>, the job files
  under \<^verbatim>\<open>static/pdf_jobs\<close>, the calls handed to \<^verbatim>\<open>_executor\<close> and not yet picked up, the calls
  a worker thread of the pool is running, the tables
  \<^verbatim>\<open>search_log\<close> and the status column of \<^verbatim>\<open>search_query\<close>, and the counters of the readings
  taken from the environment. A job file holds the value written by \<^verbatim>\<open>json.dump\<close>, or is a
  file that \<^verbatim>\<open>json.load\<close> cannot read; a write that raises leaves the old file.

  A dictionary of job metadata is one mutable object: \<^verbatim>\<open>enqueue_pdf_job\<close> binds it to
  \<^verbatim>\<open>_jobs[job_id]\<close> and returns it, and the worker updates it in place. The index therefore is
  the store of these objects, and a reference to one of them is the job id it is bound to
  (\<^verbatim>\<open>uuid4\<close> being taken not to repeat an id, no binding is ever replaced by another object).
\<close>

record ip_agents =
  data_collector :: agent
  data_classifier :: agent
  insight_coordinator :: agent

record env =
  utcnow_iso :: "nat \<Rightarrow> string"
  utcnow_stamp :: "nat \<Rightarrow> string"
  uuid4 :: "nat \<Rightarrow> string"
  disk_write :: "nat \<Rightarrow> exn option"
  db_write :: "nat \<Rightarrow> exn option"
  json_loads :: "string \<Rightarrow> pyval option"
  json_dumps :: "pyval \<Rightarrow> string"
  py_str :: "pyval \<Rightarrow> string"
  pdf_tool_run :: "string \<Rightarrow> exn + string"
  image_ok :: "string \<Rightarrow> pyval \<Rightarrow> bool"
  path_join :: "string \<Rightarrow> string \<Rightarrow> string"
  worker_db_ok :: bool
  agents :: ip_agents
  last_used_llm_model :: pyval

datatype job_file = Json pyval | Unreadable exn

record job_call =
  call_job_id :: string
  call_results :: pyval
  call_output_path :: string
  call_extra_meta :: "pydict option"

datatype meta_ref = MetaRef string

record world =
  jobs :: "string \<rightharpoonup> pydict"
  files :: "string \<rightharpoonup> job_file"
  pool_queue :: "job_call list"
  pool_running :: "job_call list"
  search_log :: "(int option \<times> string) list"
  query_status :: "(int \<times> string) list"
  db_closed :: bool
  clock_reads :: nat
  uuid_draws :: nat
  disk_writes :: nat
  db_writes :: nat

text \<open>What a holder of the reference reads from the dictionary in a given world.\<close>

definition read_meta :: "world \<Rightarrow> meta_ref \<Rightarrow> pydict" where
  "read_meta w ref = (case ref of MetaRef job_id \<Rightarrow> (case jobs w job_id of Some m \<Rightarrow> m | None \<Rightarrow> []))"


subsection \<open>Python operations on values\<close>


definition str_truthy :: "string option \<Rightarrow> bool" where
  "str_truthy x = (case x of None \<Rightarrow> False | Some s \<Rightarrow> s \<noteq> [])"

definition id_truthy :: "int option \<Rightarrow> bool" where
  "id_truthy x = (case x of None \<Rightarrow> False | Some i \<Rightarrow> i \<noteq> 0)"

fun type_name :: "pyval \<Rightarrow> string" where
  "type_name PNone = ''NoneType''"
| "type_name (PBool _) = ''bool''"
| "type_name (PInt _) = ''int''"
| "type_name (PStr _) = ''str''"
| "type_name (PList _) = ''list''"
| "type_name (PDict _) = ''dict''"

text \<open>\<^verbatim>\<open>len(v)\<close>: a \<^verbatim>\<open>TypeError\<close> on a value without a length.\<close>

fun py_len :: "pyval \<Rightarrow> exn + nat" where
  "py_len (PList xs) = Inr (length xs)"
| "py_len (PDict d) = Inr (length (remdups (map fst d)))"
| "py_len (PStr s) = Inr (length s)"
| "py_len v = Inl (TypeError (''object of type '' @ [CHR 0x27] @ type_name v @ [CHR 0x27]
                               @ '' has no len()''))"

text \<open>\<^verbatim>\<open>v.get(k, default)\<close>: an \<^verbatim>\<open>AttributeError\<close> on a value that is not a dictionary.\<close>

fun py_get :: "pyval \<Rightarrow> string \<Rightarrow> pyval \<Rightarrow> exn + pyval" where
  "py_get (PDict d) k dflt = Inr (case map_of d k of Some v \<Rightarrow> v | None \<Rightarrow> dflt)"
| "py_get v k dflt = Inl (AttributeError ([CHR 0x27] @ type_name v @ [CHR 0x27]
                               @ '' object has no attribute '' @ [CHR 0x27] @ ''get'' @ [CHR 0x27]))"

definition dict_get :: "pydict \<Rightarrow> string \<Rightarrow> pyval" where
  "dict_get d k = (case map_of d k of Some v \<Rightarrow> v | None \<Rightarrow> PNone)"


definition opt_int :: "int option \<Rightarrow> pyval" where
  "opt_int x = (case x of None \<Rightarrow> PNone | Some i \<Rightarrow> PInt i)"

section \<open>The report-job queue (tasks/pdf_worker.py)\<close>

definition persist_job_meta :: "env \<Rightarrow> string \<Rightarrow> pydict \<Rightarrow> world \<Rightarrow> exn option \<times> world" where
  "persist_job_meta ev job_id meta w =
     (let n = disk_writes w; w1 = w\<lparr>disk_writes := Suc n\<rparr> in
      case disk_write ev n of
        None \<Rightarrow> (None, w1\<lparr>files := (files w1)(job_id \<mapsto> Json (PDict meta))\<rparr>)
      | Some e \<Rightarrow> (Some e, w1))"


text \<open>\<^verbatim>\<open>str(Path(dir) / filename)\<close>: the name appended to the directory when it is a single
  component, \<^verbatim>\<open>pathlib\<close>'s answer otherwise.\<close>

definition path_under :: "env \<Rightarrow> string \<Rightarrow> string \<Rightarrow> string" where
  "path_under ev dir filename =
     (if CHR ''/'' \<in> set filename then path_join ev dir filename else dir @ ''/'' @ filename)"










text \<open>\<^verbatim>\<open>enqueue_pdf_job\<close>. \<^verbatim>\<open>_executor.submit\<close> appends the call to the pool's queue and returns;
  the exception of a failed first write leaves the function before the call is submitted.
  The value returned is the dictionary object itself, that is, the reference to it.\<close>

definition enqueue_pdf_job ::
  "env \<Rightarrow> pyval \<Rightarrow> string option \<Rightarrow> int option \<Rightarrow> string \<Rightarrow> world \<Rightarrow> (exn + meta_ref) \<times> world" where
  "enqueue_pdf_job ev results output_path search_query_id title_prefix w =
     (let job_id = uuid4 ev (uuid_draws w);
          ts = utcnow_stamp ev (clock_reads w);
          output_path' = (case output_path of
                            None \<Rightarrow> path_under ev ''static'' (title_prefix @ ''_'' @ ts @ ''.pdf'')
                          | Some p \<Rightarrow> p);
          llm_model = (case results of PDict rd \<Rightarrow> dict_get rd ''llm_model'' | _ \<Rightarrow> PNone);
          meta = [(''job_id'', PStr job_id),
                  (''status'', PStr ''pending''),
                  (''output_path'', PStr output_path'),
                  (''queued_at'', PStr (utcnow_iso ev (Suc (clock_reads w)))),
                  (''search_query_id'', opt_int search_query_id),
                  (''llm_model'', llm_model)];
          w1 = w\<lparr>jobs := (jobs w)(job_id \<mapsto> meta),
                  clock_reads := Suc (Suc (clock_reads w)),
                  uuid_draws := Suc (uuid_draws w)\<rparr>
      in case persist_job_meta ev job_id meta w1 of
           (Some e, w2) \<Rightarrow> (Inl e, w2)
         | (None, w2) \<Rightarrow>
             (let extra = [(''search_query_id'', opt_int search_query_id),
                           (''llm_model'', llm_model)];
                  call = \<lparr>call_job_id = job_id, call_results = results,
                          call_output_path = output_path', call_extra_meta = Some extra\<rparr>
              in (Inr (MetaRef job_id), w2\<lparr>pool_queue := pool_queue w2 @ [call]\<rparr>)))"




section \<open>The pipeline: \<open>PropriedadeIntelectualFlow\<close> (flows/ip_flow.py)\<close>

text \<open>
  The flow holds a database handle \<^verbatim>\<open>self.db\<close>. Each of its methods sends one statement over
  the connection; the statement either takes effect or raises, as the environment says. The
  framework calls the start method and then each listener with the value its predecessor
  returned; an exception that leaves a stage method leaves the framework's \<^verbatim>\<open>kickoff\<close>, and
  no later stage runs.
\<close>

record flow_state =
  search_query_id :: "int option"
  search_criteria :: string
  raw_data_json :: "string option"
  classified_data_json :: "string option"
  analysis_results_json :: "string option"
  visualizations_json :: "string option"
  final_report :: pydict
  error_message :: "string option"

definition default_state :: flow_state where
  "default_state =
     \<lparr>search_query_id = None, search_criteria = [], raw_data_json = None,
      classified_data_json = None, analysis_results_json = None, visualizations_json = None,
      final_report = [], error_message = None\<rparr>"

definition db_execute :: "env \<Rightarrow> (world \<Rightarrow> world) \<Rightarrow> world \<Rightarrow> exn option \<times> world" where
  "db_execute ev change w =
     (let n = db_writes w; w1 = w\<lparr>db_writes := Suc n\<rparr> in
      case db_write ev n of
        None \<Rightarrow> (None, change w1)
      | Some e \<Rightarrow> (Some e, w1))"

definition insert_search_log ::
  "env \<Rightarrow> int option \<Rightarrow> string \<Rightarrow> world \<Rightarrow> exn option \<times> world" where
  "insert_search_log ev qid log_msg w =
     db_execute ev (\<lambda>w'. w'\<lparr>search_log := search_log w' @ [(qid, log_msg)]\<rparr>) w"

definition update_search_query_status ::
  "env \<Rightarrow> int \<Rightarrow> string \<Rightarrow> world \<Rightarrow> exn option \<times> world" where
  "update_search_query_status ev qid new_status w =
     db_execute ev (\<lambda>w'. w'\<lparr>query_status := query_status w' @ [(qid, new_status)]\<rparr>) w"

definition db_close :: "env \<Rightarrow> world \<Rightarrow> exn option \<times> world" where
  "db_close ev w = db_execute ev (\<lambda>w'. w'\<lparr>db_closed := True\<rparr>) w"

text \<open>\<^verbatim>\<open>if self.db and self.state.search_query_id: self.db.insert_search_log(...)\<close>\<close>

definition log_if_id :: "env \<Rightarrow> flow_state \<Rightarrow> string \<Rightarrow> world \<Rightarrow> exn option \<times> world" where
  "log_if_id ev st log_msg w =
     (if id_truthy (search_query_id st) then insert_search_log ev (search_query_id st) log_msg w
      else (None, w))"

text \<open>The result of a stage method: the value it returns or the exception that leaves it,
  and the state and the world it leaves.\<close>

type_synonym stage_result = "(exn + string) \<times> flow_state \<times> world"

text \<open>\<^verbatim>\<open>_handle_error\<close>: the message is stored in the state, then logged without a handler.\<close>

definition handle_error :: "env \<Rightarrow> string \<Rightarrow> exn \<Rightarrow> flow_state \<Rightarrow> world \<Rightarrow> stage_result" where
  "handle_error ev step_name e st w =
     (let error_msg = ''Erro no passo '' @ [CHR 0x27] @ step_name @ [CHR 0x27] @ '': ''
                        @ exn_str e;
          st' = st\<lparr>error_message := Some error_msg\<rparr>
      in if id_truthy (search_query_id st')
         then (case insert_search_log ev (search_query_id st') error_msg w of
                 (None, w') \<Rightarrow> (Inr error_msg, st', w')
               | (Some x, w') \<Rightarrow> (Inl x, st', w'))
         else (Inr error_msg, st', w))"

definition create_data_collection_task :: "env \<Rightarrow> task" where
  "create_data_collection_task ev = \<lparr>task_agent = Some (data_collector (agents ev))\<rparr>"

definition create_data_classification_task :: "env \<Rightarrow> task" where
  "create_data_classification_task ev = \<lparr>task_agent = Some (data_classifier (agents ev))\<rparr>"

definition create_analysis_task :: "env \<Rightarrow> task" where
  "create_analysis_task ev = \<lparr>task_agent = Some (insight_coordinator (agents ev))\<rparr>"

definition create_visualization_task :: "env \<Rightarrow> task" where
  "create_visualization_task ev = \<lparr>task_agent = Some (insight_coordinator (agents ev))\<rparr>"

definition iniciar_pesquisa :: "env \<Rightarrow> flow_state \<Rightarrow> world \<Rightarrow> stage_result" where
  "iniciar_pesquisa ev st w =
     (if search_criteria st = [] \<or> search_query_id st = None
      then handle_error ev ''iniciar_pesquisa''
             (ValueError ''Criterio de busca ou ID da busca nao foram definidos no estado inicial.'')
             st w
      else
        (let log_msg = ''Fluxo iniciado para a busca ID '' @ str_int (the (search_query_id st))
                         @ '' com criterio: '' @ [CHR 0x27] @ search_criteria st @ [CHR 0x27]
         in case insert_search_log ev (search_query_id st) log_msg w of
              (None, w') \<Rightarrow> (Inr ''Inicio da coleta de dados.'', st, w')
            | (Some x, w') \<Rightarrow> (Inl x, st, w')))"

text \<open>In \<^verbatim>\<open>coletar_dados\<close> and \<^verbatim>\<open>analisar_dados\<close> the payload is assigned before the log entry
  is written, and both are inside the \<^verbatim>\<open>try\<close> whose handler is \<^verbatim>\<open>_handle_error\<close>.\<close>

definition coletar_dados :: "env \<Rightarrow> string \<Rightarrow> flow_state \<Rightarrow> world \<Rightarrow> stage_result" where
  "coletar_dados ev previous_output st w =
     (if str_truthy (error_message st) then (Inr previous_output, st, w)
      else
        (let task_input = json_dumps ev
                            (PDict [(''query'', PStr (search_criteria st)),
                                    (''search_query_id'', opt_int (search_query_id st))])
         in case fst (execute_task (create_data_collection_task ev) task_input None None 2) of
              Inl e \<Rightarrow>
                handle_error ev ''coletar_dados''
                  (RuntimeError (''Falha ao executar task de coleta: '' @ exn_str e)) st w
            | Inr out \<Rightarrow>
                (let st' = st\<lparr>raw_data_json := Some out\<rparr>;
                     num_results =
                       (if out = [] then 0
                        else (case json_loads ev out of
                                Some (PList raw_list) \<Rightarrow> length raw_list
                              | _ \<Rightarrow> 0));
                     log_msg = ''Coleta concluida. '' @ str_nat num_results
                                 @ '' resultados brutos obtidos e persistidos.''
                 in case insert_search_log ev (search_query_id st') log_msg w of
                      (None, w') \<Rightarrow> (Inr ''Coleta de dados finalizada.'', st', w')
                    | (Some x, w') \<Rightarrow> handle_error ev ''coletar_dados'' x st' w')))"

text \<open>The outer handler of \<^verbatim>\<open>classificar_dados\<close>: it logs and returns the text of the error; it
  does not call \<^verbatim>\<open>_handle_error\<close>.\<close>

definition classificar_failed :: "env \<Rightarrow> exn \<Rightarrow> flow_state \<Rightarrow> world \<Rightarrow> stage_result" where
  "classificar_failed ev e st w =
     (let msg = ''Erro na classificacao: '' @ exn_str e
      in case log_if_id ev st msg w of
           (None, w') \<Rightarrow> (Inr msg, st, w')
         | (Some x, w') \<Rightarrow> (Inl x, st, w'))"

definition classificar_dados :: "env \<Rightarrow> string \<Rightarrow> flow_state \<Rightarrow> world \<Rightarrow> stage_result" where
  "classificar_dados ev previous_output st w =
     (if \<not> str_truthy (raw_data_json st) then (Inr previous_output, st, w)
      else
        (case fst (execute_task (create_data_classification_task ev) (the (raw_data_json st))
                     None None 2) of
           Inl e \<Rightarrow>
             (case log_if_id ev st (''Erro na classificacao: '' @ exn_str e) w of
                (None, w') \<Rightarrow> classificar_failed ev e st w'
              | (Some x, w') \<Rightarrow> classificar_failed ev x st w')
         | Inr out \<Rightarrow>
             (let st' = st\<lparr>classified_data_json := Some out\<rparr>;
                  classified_count =
                    (if out = [] then 0
                     else (case json_loads ev out of
                             Some v \<Rightarrow> (case py_len v of Inr n \<Rightarrow> n | Inl _ \<Rightarrow> 0)
                           | None \<Rightarrow> 0))
              in case log_if_id ev st'
                        (str_nat classified_count
                           @ '' resultados classificados (persistencia feita pela ferramenta).'') w of
                   (None, w') \<Rightarrow>
                     (Inr (''Classificacao concluida: '' @ str_nat classified_count
                             @ '' registros validos''), st', w')
                 | (Some x, w') \<Rightarrow> classificar_failed ev x st' w')))"

definition analisar_dados :: "env \<Rightarrow> string \<Rightarrow> flow_state \<Rightarrow> world \<Rightarrow> stage_result" where
  "analisar_dados ev previous_output st w =
     (if \<not> str_truthy (classified_data_json st) then (Inr previous_output, st, w)
      else
        (case fst (execute_task (create_analysis_task ev) (the (classified_data_json st))
                     (Some ''DataAnalysisTool'') None 2) of
           Inl e \<Rightarrow>
             handle_error ev ''analisar_dados''
               (RuntimeError (''Falha ao executar analise de dados: '' @ exn_str e)) st w
         | Inr out \<Rightarrow>
             (let st' = st\<lparr>analysis_results_json := Some out\<rparr>
              in case insert_search_log ev (search_query_id st')
                        ''Analise de dados conlcuida com Sucesso'' w of
                   (None, w') \<Rightarrow> (Inr ''Analise de dados finalizada.'', st', w')
                 | (Some x, w') \<Rightarrow> handle_error ev ''analisar_dados'' x st' w')))"

text \<open>The outer handler of \<^verbatim>\<open>gerar_visualizacoes\<close>.\<close>

definition gerar_failed :: "env \<Rightarrow> exn \<Rightarrow> flow_state \<Rightarrow> world \<Rightarrow> stage_result" where
  "gerar_failed ev e st w =
     (case log_if_id ev st (''Erro na geracao de visualizacoes: '' @ exn_str e) w of
        (None, w') \<Rightarrow> handle_error ev ''gerar_visualizacoes'' e st w'
      | (Some x, w') \<Rightarrow> (Inl x, st, w'))"

definition gerar_visualizacoes :: "env \<Rightarrow> string \<Rightarrow> flow_state \<Rightarrow> world \<Rightarrow> stage_result" where
  "gerar_visualizacoes ev previous_output st w =
     (if \<not> str_truthy (analysis_results_json st) then (Inr previous_output, st, w)
      else
        (case fst (execute_task (create_visualization_task ev) (the (analysis_results_json st))
                     (Some ''VisualizationTool'') None 1) of
           Inl e \<Rightarrow>
             (case log_if_id ev st (''Erro na execucao da visualizacao: '' @ exn_str e) w of
                (None, w') \<Rightarrow> gerar_failed ev e st w'
              | (Some x, w') \<Rightarrow> gerar_failed ev x st w')
         | Inr out \<Rightarrow>
             (Inr ''Visualizacoes geradas'', st\<lparr>visualizations_json := Some out\<rparr>, w)))"

text \<open>\<^verbatim>\<open>_safe_json_load\<close>: the default for an absent or empty string and for a string that
  \<^verbatim>\<open>json.loads\<close> rejects; otherwise whatever value the string decodes to.\<close>

definition safe_json_load :: "env \<Rightarrow> string option \<Rightarrow> pyval \<Rightarrow> pyval" where
  "safe_json_load ev json_str default_value =
     (case json_str of
        None \<Rightarrow> default_value
      | Some s \<Rightarrow>
          if s = [] then default_value
          else (case json_loads ev s of Some v \<Rightarrow> v | None \<Rightarrow> default_value))"

text \<open>The dictionary display that \<^verbatim>\<open>_generate_final_report\<close> assigns to
  \<^verbatim>\<open>self.state.final_report\<close>; \<^verbatim>\<open>len(raw_data)\<close> and \<^verbatim>\<open>analysis_results.get\<close> may raise.\<close>

definition build_report :: "env \<Rightarrow> flow_state \<Rightarrow> exn + pydict" where
  "build_report ev st =
     (let classified_data = safe_json_load ev (classified_data_json st) (PList []);
          analysis_results = safe_json_load ev (analysis_results_json st) (PDict []);
          visualizations = safe_json_load ev (visualizations_json st) (PDict []);
          raw_data = safe_json_load ev (raw_data_json st) (PList [])
      in case py_len raw_data of
           Inl e \<Rightarrow> Inl e
         | Inr n \<Rightarrow>
             (case py_get analysis_results ''insights'' (PStr ''Nenhum insight gerado.'') of
                Inl e \<Rightarrow> Inl e
              | Inr insights \<Rightarrow>
                  Inr [(''success'', PBool True),
                       (''flow_id'', opt_int (search_query_id st)),
                       (''search_criteria'', PStr (search_criteria st)),
                       (''data_collected'', PInt (int n)),
                       (''classified_data'', classified_data),
                       (''analysis_results'', analysis_results),
                       (''visualizations'', visualizations),
                       (''llm_model'', last_used_llm_model ev),
                       (''insights'', insights)]))"

text \<open>The outer handler of \<^verbatim>\<open>_generate_final_report\<close>: a log entry and \<^verbatim>\<open>_handle_error\<close>, both
  without a handler of their own. The result is the exception that leaves the method, if
  any.\<close>

definition report_failed ::
  "env \<Rightarrow> exn \<Rightarrow> flow_state \<Rightarrow> world \<Rightarrow> exn option \<times> flow_state \<times> world" where
  "report_failed ev e st w =
     (case log_if_id ev st (''Erro ao gerar relatorio final: '' @ exn_str e) w of
        (Some x, w') \<Rightarrow> (Some x, st, w')
      | (None, w') \<Rightarrow>
          (case handle_error ev ''generate_final_report'' e st w' of
             (Inl x, st', w'') \<Rightarrow> (Some x, st', w'')
           | (Inr _, st', w'') \<Rightarrow> (None, st', w'')))"

text \<open>The handler of the \<^verbatim>\<open>try\<close> around the submission of the render job; its log entry is
  inside the outer \<^verbatim>\<open>try\<close>.\<close>

definition enqueue_failed ::
  "env \<Rightarrow> exn \<Rightarrow> flow_state \<Rightarrow> world \<Rightarrow> exn option \<times> flow_state \<times> world" where
  "enqueue_failed ev pj_e st w =
     (case log_if_id ev st (''Falha ao enfileirar PDF: '' @ exn_str pj_e) w of
        (None, w') \<Rightarrow> (None, st, w')
      | (Some x, w') \<Rightarrow> report_failed ev x st w')"

text \<open>The status update and its log entry are inside a \<^verbatim>\<open>try\<close> whose handler only prints.\<close>

definition mark_completed :: "env \<Rightarrow> flow_state \<Rightarrow> world \<Rightarrow> world" where
  "mark_completed ev st w =
     (if id_truthy (search_query_id st)
      then (case update_search_query_status ev (the (search_query_id st)) ''completed'' w of
              (Some _, w') \<Rightarrow> w'
            | (None, w') \<Rightarrow>
                snd (insert_search_log ev (search_query_id st)
                       ''Fluxo concluido e relatorio final gerado.'' w'))
      else w)"

text \<open>The \<^verbatim>\<open>results\<close> argument of \<^verbatim>\<open>enqueue_pdf_job\<close> is the report dictionary itself, and the
  submitted call keeps that object: a key stored in the report after the submission is in the
  results of the call that was queued last.\<close>

definition share_report :: "pyval \<Rightarrow> world \<Rightarrow> world" where
  "share_report results w =
     (case rev (pool_queue w) of
        [] \<Rightarrow> w
      | c # cs \<Rightarrow> w\<lparr>pool_queue := rev cs @ [c\<lparr>call_results := results\<rparr>]\<rparr>)"

text \<open>\<^verbatim>\<open>_generate_final_report\<close>. The flow reads the returned metadata before any step of the
  pool.\<close>

definition generate_final_report ::
  "env \<Rightarrow> flow_state \<Rightarrow> world \<Rightarrow> exn option \<times> flow_state \<times> world" where
  "generate_final_report ev st w =
     (case build_report ev st of
        Inl e \<Rightarrow> report_failed ev e st w
      | Inr report \<Rightarrow>
          (let st1 = st\<lparr>final_report := report\<rparr>;
               w1 = mark_completed ev st1 w
           in case enqueue_pdf_job ev (PDict (final_report st1)) None (search_query_id st1)
                     ''relatorio_buscapi'' w1 of
                (Inr ref, w2) \<Rightarrow>
                  (let pdf_job_meta = read_meta w2 ref;
                       st2 = st1\<lparr>final_report :=
                               AList.update ''pdf_job''
                                 (PDict [(''job_id'', dict_get pdf_job_meta ''job_id''),
                                         (''status'', dict_get pdf_job_meta ''status''),
                                         (''output_path'', dict_get pdf_job_meta ''output_path'')])
                                 (final_report st1)\<rparr>
                   in case log_if_id ev st2
                             (''PDF generation enqueued: job_id=''
                                @ py_str ev (dict_get pdf_job_meta ''job_id''))
                             (share_report (PDict (final_report st2)) w2) of
                        (None, w3) \<Rightarrow> (None, st2, w3)
                      | (Some pj_e, w3) \<Rightarrow> enqueue_failed ev pj_e st2 w3)
              | (Inl pj_e, w2) \<Rightarrow> enqueue_failed ev pj_e st1 w2))"

text \<open>The stage methods in the order the framework runs them: the result of each, up to the
  first that raises.\<close>

definition then_stage ::
  "stage_result list \<Rightarrow> (string \<Rightarrow> flow_state \<Rightarrow> world \<Rightarrow> stage_result) \<Rightarrow> stage_result list" where
  "then_stage tr stage =
     (case last tr of
        (Inr out, st, w) \<Rightarrow> tr @ [stage out st w]
      | (Inl e, st, w) \<Rightarrow> tr)"

definition stage_trace :: "env \<Rightarrow> flow_state \<Rightarrow> world \<Rightarrow> stage_result list" where
  "stage_trace ev st w =
     then_stage (then_stage (then_stage (then_stage [iniciar_pesquisa ev st w]
       (coletar_dados ev)) (classificar_dados ev)) (analisar_dados ev)) (gerar_visualizacoes ev)"

definition run_stages :: "env \<Rightarrow> flow_state \<Rightarrow> world \<Rightarrow> exn option \<times> flow_state \<times> world" where
  "run_stages ev st w =
     (case last (stage_trace ev st w) of
        (Inr out, st', w') \<Rightarrow> (None, st', w')
      | (Inl e, st', w') \<Rightarrow> (Some e, st', w'))"

text \<open>\<^verbatim>\<open>kickoff\<close>: the stages, the final report, \<^verbatim>\<open>self.db.close()\<close>; the value returned is
  \<^verbatim>\<open>self.state.final_report\<close>, unless an exception leaves one of the three.\<close>

definition kickoff ::
  "env \<Rightarrow> flow_state option \<Rightarrow> world \<Rightarrow> (exn + pydict) \<times> flow_state \<times> world" where
  "kickoff ev state w =
     (let st0 = (case state of None \<Rightarrow> default_state | Some s \<Rightarrow> s) in
      case run_stages ev st0 w of
        (Some e, st1, w1) \<Rightarrow> (Inl e, st1, w1)
      | (None, st1, w1) \<Rightarrow>
          (case generate_final_report ev st1 w1 of
             (Some e, st2, w2) \<Rightarrow> (Inl e, st2, w2)
           | (None, st2, w2) \<Rightarrow>
               (case db_close ev w2 of
                  (Some e, w3) \<Rightarrow> (Inl e, st2, w3)
                | (None, w3) \<Rightarrow> (Inr (final_report st2), st2, w3))))"

text \<open>The payload fields that a stage may write.\<close>

definition payloads :: "flow_state \<Rightarrow> string option \<times> string option \<times> string option" where
  "payloads st = (classified_data_json st, analysis_results_json st, visualizations_json st)"

text \<open>A run starts blank when no stage output is in the state yet, as in the state that
  \<^verbatim>\<open>IPAnalysisService.execute_analysis\<close> builds from the query id and the criteria.\<close>

definition blank_payloads :: "flow_state \<Rightarrow> bool" where
  "blank_payloads st \<longleftrightarrow>
     \<not> str_truthy (raw_data_json st) \<and> \<not> str_truthy (classified_data_json st)
     \<and> \<not> str_truthy (analysis_results_json st)"



definition stage_state :: "stage_result \<Rightarrow> flow_state" where
  "stage_state r = fst (snd r)"

section \<open>Sample inputs\<close>

text \<open>Concrete tools, tasks and environments at which the theorems below are evaluated.\<close>

definition failing_tool :: tool where
  "failing_tool =
     \<lparr>tool_class = ''NLPClassificationTool'', tool_bases = [''BaseTool''],
      tool_name = Some ''NLP Classification Tool'',
      tool_run = (\<lambda>a inp. Raises (ValueError ''boom''))\<rparr>"

definition failing_task :: task where
  "failing_task = \<lparr>task_agent = Some \<lparr>agent_tools = [failing_tool]\<rparr>\<rparr>"



definition sample_hash :: "pydict \<Rightarrow> string option" where
  "sample_hash d =
     (if map_of d ''title'' = Some (PStr ''Ledger'') then Some ''9f2c'' else Some ''0000'')"

definition sample_item :: pydict where
  "sample_item = [(''title'', PStr ''Ledger''), (''source'', PStr ''EPO'')]"

definition initial_world :: world where
  "initial_world =
     \<lparr>jobs = Map.empty, files = Map.empty, pool_queue = [], pool_running = [],
      search_log = [], query_status = [], db_closed = False, clock_reads = 0, uuid_draws = 0,
      disk_writes = 0, db_writes = 0\<rparr>"

text \<open>An environment in which the clock, the identifiers and the disk behave, the renderer
  answers with a path, and \<^verbatim>\<open>json.loads\<close> is given by a table of the texts that occur.\<close>

definition quoted :: "string \<Rightarrow> string" where
  "quoted s = CHR 0x22 # s @ [CHR 0x22]"

definition path_response :: string where
  "path_response = ''{'' @ quoted ''path'' @ '': '' @ quoted ''static/r.pdf'' @ ''}''"

definition sample_loads :: "string \<Rightarrow> pyval option" where
  "sample_loads =
     map_of [(''null'', PNone),
             (''[]'', PList []),
             (''[1, 2]'', PList [PInt 1, PInt 2]),
             (''{}'', PDict []),
             (path_response, PDict [(''path'', PStr ''static/r.pdf'')])]"

definition sample_str :: "pyval \<Rightarrow> string" where
  "sample_str v = (case v of PStr s \<Rightarrow> s | PNone \<Rightarrow> ''None'' | _ \<Rightarrow> ''...'')"

definition returning_tool :: "string \<Rightarrow> string \<Rightarrow> tool" where
  "returning_tool cls out =
     \<lparr>tool_class = cls, tool_bases = [''BaseTool''], tool_name = None,
      tool_run = (\<lambda>a inp. Returns (OutStr out))\<rparr>"

definition sample_agents :: ip_agents where
  "sample_agents =
     \<lparr>data_collector = \<lparr>agent_tools = [returning_tool ''IPDataCollectorTool'' ''[1, 2]'']\<rparr>,
      data_classifier = \<lparr>agent_tools = [returning_tool ''NLPClassificationTool'' ''[1, 2]'']\<rparr>,
      insight_coordinator =
        \<lparr>agent_tools = [returning_tool ''DataAnalysisTool'' ''{}'',
                        returning_tool ''VisualizationTool'' ''{}'']\<rparr>\<rparr>"

definition sample_env :: env where
  "sample_env =
     \<lparr>utcnow_iso = (\<lambda>n. ''2025-01-01T00:00:0'' @ str_nat n),
      utcnow_stamp = (\<lambda>n. ''20250101_00000'' @ str_nat n),
      uuid4 = (\<lambda>n. ''job-'' @ str_nat n),
      disk_write = (\<lambda>n. None),
      db_write = (\<lambda>n. None),
      json_loads = sample_loads,
      json_dumps = (\<lambda>v. ''payload''),
      py_str = sample_str,
      pdf_tool_run = (\<lambda>s. Inr path_response),
      image_ok = (\<lambda>name v. True),
      path_join = (\<lambda>dir name. dir @ ''/'' @ name),
      worker_db_ok = True,
      agents = sample_agents,
      last_used_llm_model = PNone\<rparr>"

text \<open>A collector whose answer decodes to \<^verbatim>\<open>None\<close>, a collector that fails, and a state that
  already carries raw data, as the one built in scripts/smoke_pdf_enqueue.py.\<close>

definition null_collector_env :: env where
  "null_collector_env =
     sample_env\<lparr>agents :=
       sample_agents\<lparr>data_collector :=
         \<lparr>agent_tools = [returning_tool ''IPDataCollectorTool'' ''null'']\<rparr>\<rparr>\<rparr>"

definition failing_collector_env :: env where
  "failing_collector_env =
     sample_env\<lparr>agents := sample_agents\<lparr>data_collector := \<lparr>agent_tools = [failing_tool]\<rparr>\<rparr>\<rparr>"

definition failing_classifier_env :: env where
  "failing_classifier_env =
     sample_env\<lparr>agents := sample_agents\<lparr>data_classifier := \<lparr>agent_tools = [failing_tool]\<rparr>\<rparr>\<rparr>"

definition fresh_state :: flow_state where
  "fresh_state = default_state\<lparr>search_query_id := Some 7, search_criteria := ''ledger''\<rparr>"

definition preloaded_state :: flow_state where
  "preloaded_state = fresh_state\<lparr>raw_data_json := Some ''[]''\<rparr>"



definition db_blip_env :: env where
  "db_blip_env =
     sample_env\<lparr>db_write := (\<lambda>n. if n = 1 then Some (OSError ''connection reset'') else None)\<rparr>"

section \<open>Properties of the stage executor\<close>

lemma attempts_all_raise:
  "(\<And>a. a0 \<le> a \<Longrightarrow> a < a0 + n \<Longrightarrow> tool_run t a inp = Raises (e a)) \<Longrightarrow>
   attempts t inp a0 n l =
     (Inl (if n = 0 then l else Some (e (a0 + n - 1))),
      concat (map (\<lambda>a. [Invoked a, Slept 200]) [a0..<a0 + n]))"
proof (induction n arbitrary: a0 l)
  case 0
  then show ?case by simp
next
  case (Suc n)
  have r: "tool_run t a0 inp = Raises (e a0)" using Suc.prems[of a0] by simp
  have ih: "attempts t inp (Suc a0) n (Some (e a0)) =
     (Inl (if n = 0 then Some (e a0) else Some (e (Suc a0 + n - 1))),
      concat (map (\<lambda>a. [Invoked a, Slept 200]) [Suc a0..<Suc a0 + n]))"
    by (rule Suc.IH) (use Suc.prems in auto)
  show ?case
    by (simp add: r ih upt_conv_Cons)
qed


lemma count_invoked_pairs:
  "count_invoked (concat (map (\<lambda>a. [Invoked a, Slept d]) xs)) = length xs"
  by (induction xs) (auto simp: count_invoked_def)

text \<open>
  C6, as the code has it. When a tool is chosen and every call of it raises, a call with
  \<^verbatim>\<open>retries = r\<close> makes \<open>max 1 r\<close> calls in all, numbered from 1, each followed by a
  sleep of 0.2 s, and then raises a \<^verbatim>\<open>RuntimeError\<close> whose text carries \<open>r\<close> and the text of
  the last exception. The budget counts attempts, not repetitions after a first attempt.
\<close>

theorem execute_task_exhausts_attempts:
  assumes ag: "task_agent tsk = Some ag"
    and ch: "choose_tool (agent_tools ag) pc pn = Some t"
    and raises: "\<forall>a. 1 \<le> a \<and> a \<le> nat (max 1 r) \<longrightarrow> tool_run t a inp = Raises (e a)"
  shows "execute_task tsk inp pc pn r =
           (Inl (RuntimeError (''Falha ao executar a task apos '' @ str_int r
                   @ '' tentativas: '' @ exn_str (e (nat (max 1 r))))),
            concat (map (\<lambda>a. [Invoked a, Slept 200]) [1..<Suc (nat (max 1 r))]))
         \<and> count_invoked (snd (execute_task tsk inp pc pn r)) = nat (max 1 r)"
proof -
  let ?n = "nat (max 1 r)"
  have pos: "?n \<noteq> 0" by simp
  have att: "attempts t inp (Suc 0) ?n None =
     (Inl (if ?n = 0 then None else Some (e (Suc 0 + ?n - 1))),
      concat (map (\<lambda>a. [Invoked a, Slept 200]) [Suc 0..<Suc 0 + ?n]))"
    by (rule attempts_all_raise) (use raises in auto)
  have ex: "execute_task tsk inp pc pn r =
           (Inl (RuntimeError (''Falha ao executar a task apos '' @ str_int r
                   @ '' tentativas: '' @ exn_str (e ?n))),
            concat (map (\<lambda>a. [Invoked a, Slept 200]) [1..<Suc ?n]))"
    unfolding execute_task_def using pos by (simp add: ag ch att str_exn_opt_def)
  show ?thesis
    unfolding ex by (simp add: count_invoked_pairs del: upt_Suc)
qed

theorem execute_task_exhausts_attempts_witness:
  "execute_task failing_task ''[]'' None None 2 =
     (Inl (RuntimeError ''Falha ao executar a task apos 2 tentativas: boom''),
      [Invoked 1, Slept 200, Invoked 2, Slept 200])"
proof -
  have a: "task_agent failing_task = Some \<lparr>agent_tools = [failing_tool]\<rparr>"
    by (simp add: failing_task_def)
  have c: "choose_tool (agent_tools \<lparr>agent_tools = [failing_tool]\<rparr>) None None = Some failing_tool"
    by (simp add: choose_tool_def)
  have r: "\<forall>a. 1 \<le> a \<and> a \<le> nat (max 1 2) \<longrightarrow>
             tool_run failing_tool a ''[]'' = Raises ((\<lambda>_. ValueError ''boom'') a)"
    by (simp add: failing_tool_def)
  have s2: "str_int 2 = ''2''"
    by (simp add: str_int_def str_nat.simps digit_char_def)
  show ?thesis
    using execute_task_exhausts_attempts [OF a c r] by (simp add: s2 upt_conv_Cons)
qed

text \<open>With \<^verbatim>\<open>retries = 2\<close> and a tool that always raises, the tool is called twice, not once
  and then two more times.\<close>

theorem retries_not_added_counterexample:
  "count_invoked (snd (execute_task failing_task ''[]'' None None 2)) = 2
   \<and> count_invoked (snd (execute_task failing_task ''[]'' None None 2)) \<noteq> 1 + 2"
  by (simp add: execute_task_def failing_task_def failing_tool_def choose_tool_def
        count_invoked_def numeral_2_eq_2)



section \<open>Properties of the raw-result store\<close>

lemma has_hash_update:
  "has_hash h' \<lparr>row_id = i, row_query = q, row_source = s,
                 row_json = AList.update ''_hash'' (PStr h) d\<rparr> \<longleftrightarrow> h' = h"
  by (auto simp: has_hash_def update_conv')

lemma find_None_filter: "find P xs = None \<longleftrightarrow> filter P xs = []"
  by (induction xs) auto

lemma find_Some_filter: "find P xs = Some r \<longleftrightarrow> (\<exists>rs. filter P xs = r # rs)"
  by (induction xs) auto

lemma select_existing_None:
  "select_existing tbl q h = None \<longleftrightarrow> matching_rows tbl q h = []"
  by (simp add: select_existing_def matching_rows_def find_None_filter)

lemma select_existing_hd:
  "select_existing tbl q h = Some r \<longleftrightarrow> (\<exists>rs. matching_rows tbl q h = r # rs)"
  by (simp add: select_existing_def matching_rows_def find_Some_filter)

lemma unique_hashes_empty: "unique_hashes empty_table"
  by (simp add: unique_hashes_def matching_rows_def empty_table_def)

lemma unique_hashes_insert:
  assumes inv: "unique_hashes tbl"
    and ins: "insert_search_result_raw H f rb tbl q src d = (i, d', tbl')"
  shows "unique_hashes tbl'"
proof (cases "tbl' = tbl")
  case True
  with inv show ?thesis by simp
next
  case False
  with ins obtain h where h: "H d = Some h"
    and none: "select_existing tbl q h = None"
    and tbl': "tbl' = tbl\<lparr>rows := rows tbl @ [\<lparr>row_id = next_id tbl, row_query = q,
                       row_source = src, row_json = AList.update ''_hash'' (PStr h) d\<rparr>],
                     next_id := next_id tbl + 1\<rparr>"
    by (auto simp: insert_search_result_raw_def Let_def split: option.splits if_splits)
  have empty: "matching_rows tbl q h = []"
    using none by (simp add: select_existing_None)
  show ?thesis
    unfolding unique_hashes_def
  proof (intro allI)
    fix q' h'
    have old: "length (matching_rows tbl q' h') \<le> 1"
      using inv by (simp add: unique_hashes_def)
    show "length (matching_rows tbl' q' h') \<le> 1"
    proof (cases "q' = q \<and> h' = h")
      case True
      then show ?thesis
        using empty by (simp add: tbl' matching_rows_def has_hash_update)
    next
      case False
      then show ?thesis
        using old by (auto simp: tbl' matching_rows_def has_hash_update)
    qed
  qed
qed

text \<open>
  C3. In a table that satisfies the uniqueness invariant (the empty table does, and every
  call keeps it), two calls that complete without a fault for the same \<^verbatim>\<open>search_query_id\<close> and
  for dictionaries with the same hash return the same id; the second call changes nothing,
  and the table holds exactly one row for the pair, the row with that id.
\<close>

theorem insert_raw_idempotent:
  assumes inv: "unique_hashes tbl"
    and h1: "content_hash d1 = Some h"
    and h2: "content_hash d2 = Some h"
    and first: "insert_search_result_raw content_hash None rb1 tbl q src1 d1 = (r1, d1', tbl1)"
    and second: "insert_search_result_raw content_hash None rb2 tbl1 q src2 d2 = (r2, d2', tbl2)"
  shows "\<exists>id1. r1 = Inr id1 \<and> r2 = Inr id1 \<and> tbl2 = tbl1
           \<and> (\<exists>r. matching_rows tbl2 q h = [r] \<and> row_id r = id1)"
proof -
  have inv1: "unique_hashes tbl1"
    using inv first by (rule unique_hashes_insert)
  have ex1: "\<exists>r rs. matching_rows tbl1 q h = r # rs \<and> r1 = Inr (row_id r)"
  proof (cases "select_existing tbl q h")
    case None
    then have e: "matching_rows tbl q h = []"
      by (simp add: select_existing_None)
    have t1: "tbl1 = tbl\<lparr>rows := rows tbl @ [\<lparr>row_id = next_id tbl, row_query = q,
                       row_source = src1, row_json = AList.update ''_hash'' (PStr h) d1\<rparr>],
                     next_id := next_id tbl + 1\<rparr>" and i1: "r1 = Inr (next_id tbl)"
      using first h1 None by (auto simp: insert_search_result_raw_def Let_def)
    have "filter (\<lambda>r. row_query r = q \<and> has_hash h r) (rows tbl) = []"
      using e by (simp add: matching_rows_def)
    then show ?thesis
      by (simp add: t1 i1 matching_rows_def has_hash_update)
  next
    case (Some r)
    then obtain rs where "matching_rows tbl q h = r # rs"
      using select_existing_hd by blast
    then show ?thesis
      using first h1 Some by (auto simp: insert_search_result_raw_def Let_def)
  qed
  then obtain r rs where m: "matching_rows tbl1 q h = r # rs" and rid: "r1 = Inr (row_id r)"
    by blast
  have "length (matching_rows tbl1 q h) \<le> 1"
    using inv1 by (simp add: unique_hashes_def)
  then have one: "matching_rows tbl1 q h = [r]"
    using m by simp
  have sel: "select_existing tbl1 q h = Some r"
    using m by (simp add: select_existing_hd)
  have "r2 = Inr (row_id r) \<and> tbl2 = tbl1"
    using second h2 sel by (auto simp: insert_search_result_raw_def Let_def)
  then show ?thesis
    using one rid by simp
qed

theorem insert_raw_idempotent_witness:
  "insert_search_result_raw sample_hash None None empty_table 7 ''EPO'' sample_item =
     (Inr 1, sample_item @ [(''_hash'', PStr ''9f2c'')],
      \<lparr>rows = [\<lparr>row_id = 1, row_query = 7, row_source = ''EPO'',
                row_json = sample_item @ [(''_hash'', PStr ''9f2c'')]\<rparr>], next_id = 2\<rparr>)
   \<and> insert_search_result_raw sample_hash None None
        \<lparr>rows = [\<lparr>row_id = 1, row_query = 7, row_source = ''EPO'',
                row_json = sample_item @ [(''_hash'', PStr ''9f2c'')]\<rparr>], next_id = 2\<rparr>
        7 ''SERPER'' sample_item =
     (Inr 1, sample_item @ [(''_hash'', PStr ''9f2c'')],
      \<lparr>rows = [\<lparr>row_id = 1, row_query = 7, row_source = ''EPO'',
                row_json = sample_item @ [(''_hash'', PStr ''9f2c'')]\<rparr>], next_id = 2\<rparr>)"
proof -
  let ?d' = "sample_item @ [(''_hash'', PStr ''9f2c'')]"
  let ?t1 = "\<lparr>rows = [\<lparr>row_id = 1, row_query = 7, row_source = ''EPO'', row_json = ?d'\<rparr>],
              next_id = 2\<rparr>"
  have h: "sample_hash sample_item = Some ''9f2c''"
    by (simp add: sample_hash_def sample_item_def)
  have first: "insert_search_result_raw sample_hash None None empty_table 7 ''EPO'' sample_item
                 = (Inr 1, ?d', ?t1)"
    by (simp add: insert_search_result_raw_def sample_hash_def select_existing_def
          empty_table_def sample_item_def Let_def)
  obtain r2 d2' tbl2 where second:
    "insert_search_result_raw sample_hash None None ?t1 7 ''SERPER'' sample_item = (r2, d2', tbl2)"
    by (metis prod_cases3)
  have d2: "d2' = ?d'"
    using second by (auto simp: insert_search_result_raw_def sample_hash_def Let_def
      sample_item_def split: option.splits)
  have "r2 = Inr 1 \<and> tbl2 = ?t1"
    using insert_raw_idempotent [OF unique_hashes_empty h h first second] by auto
  then show ?thesis
    using first second d2 by simp
qed

text \<open>
  C10, as the code has it. The handler of the method calls \<^verbatim>\<open>rollback()\<close> without a handler of
  its own. Whenever that call does not raise, the method returns an integer, whatever the
  hash function and the connection do inside the \<^verbatim>\<open>try\<close>. When hashing raises, it is \<open>-1\<close> and
  neither the dictionary nor the table changes. Otherwise the caller's dictionary has
  received the key \<^verbatim>\<open>_hash\<close> before anything is stored; the integer is \<open>-1\<close> when the connection
  raised on the path taken, the id of the first row of the table with this query id and hash
  when there is one, and the id of the row appended with the caller's dictionary when there
  is none.
\<close>

theorem insert_raw_total:
  assumes rb: "rollback_raises = None"
  shows "\<exists>i d' tbl'.
     insert_search_result_raw H f rollback_raises tbl q src d = (Inr i, d', tbl')
     \<and> (H d = None \<longrightarrow> i = - 1 \<and> d' = d \<and> tbl' = tbl)
     \<and> (\<forall>h. H d = Some h \<longrightarrow>
            d' = AList.update ''_hash'' (PStr h) d
            \<and> map_of d' ''_hash'' = Some (PStr h)
            \<and> (f = Some AtCursor \<or> f = Some AtSelect \<longrightarrow> i = - 1 \<and> tbl' = tbl)
            \<and> (f \<noteq> Some AtCursor \<and> f \<noteq> Some AtSelect \<and> matching_rows tbl q h \<noteq> [] \<longrightarrow>
                  i = row_id (hd (matching_rows tbl q h)) \<and> tbl' = tbl)
            \<and> (f = Some AtInsert \<and> matching_rows tbl q h = [] \<longrightarrow> i = - 1 \<and> tbl' = tbl)
            \<and> ((f = None \<or> f = Some AtCommit) \<and> matching_rows tbl q h = [] \<longrightarrow>
                  i = (if f = None then next_id tbl else - 1)
                  \<and> tbl' = tbl\<lparr>rows := rows tbl @ [\<lparr>row_id = next_id tbl, row_query = q,
                                                      row_source = src, row_json = d'\<rparr>],
                               next_id := next_id tbl + 1\<rparr>))"
proof (cases "H d")
  case None
  then show ?thesis
    by (simp add: insert_search_result_raw_def rollback_then_fail_def rb)
next
  case (Some h)
  have fcases: "f = None \<or> f = Some AtCursor \<or> f = Some AtSelect \<or> f = Some AtInsert
            \<or> f = Some AtCommit"
    by (cases f) (auto intro: db_fault.exhaust)
  show ?thesis
  proof (cases "select_existing tbl q h")
    case None
    then have "matching_rows tbl q h = []"
      by (simp add: select_existing_None)
    then show ?thesis
      using Some None fcases
      by (auto simp: insert_search_result_raw_def rollback_then_fail_def rb Let_def update_conv')
  next
    case sel: (Some r)
    then obtain rs where "matching_rows tbl q h = r # rs"
      using select_existing_hd by blast
    then show ?thesis
      using Some sel fcases
      by (auto simp: insert_search_result_raw_def rollback_then_fail_def rb Let_def update_conv')
  qed
qed

theorem insert_raw_total_witness:
  "insert_search_result_raw sample_hash (Some AtInsert) None empty_table 7 ''EPO'' sample_item =
     (Inr (- 1), sample_item @ [(''_hash'', PStr ''9f2c'')], empty_table)
   \<and> insert_search_result_raw sample_hash None None
        \<lparr>rows = [\<lparr>row_id = 1, row_query = 7, row_source = ''EPO'',
                row_json = sample_item @ [(''_hash'', PStr ''9f2c'')]\<rparr>], next_id = 2\<rparr>
        7 ''SERPER'' sample_item =
     (Inr 1, sample_item @ [(''_hash'', PStr ''9f2c'')],
      \<lparr>rows = [\<lparr>row_id = 1, row_query = 7, row_source = ''EPO'',
                row_json = sample_item @ [(''_hash'', PStr ''9f2c'')]\<rparr>], next_id = 2\<rparr>)"
proof -
  let ?d' = "sample_item @ [(''_hash'', PStr ''9f2c'')]"
  let ?row = "\<lparr>row_id = 1, row_query = 7, row_source = ''EPO'', row_json = ?d'\<rparr>"
  let ?t1 = "\<lparr>rows = [?row], next_id = 2\<rparr>"
  have h: "sample_hash sample_item = Some ''9f2c''"
    by (simp add: sample_hash_def sample_item_def)
  have u: "AList.update ''_hash'' (PStr ''9f2c'') sample_item = ?d'"
    by (simp add: sample_item_def)
  have e0: "matching_rows empty_table 7 ''9f2c'' = []"
    by (simp add: matching_rows_def empty_table_def)
  have e1: "matching_rows ?t1 7 ''9f2c'' = [?row]"
    by (simp add: matching_rows_def has_hash_def sample_item_def)
  have a: "insert_search_result_raw sample_hash (Some AtInsert) None empty_table 7 ''EPO'' sample_item
             = (Inr (- 1), ?d', empty_table)"
    using insert_raw_total [OF refl, of sample_hash "Some AtInsert" empty_table 7 "''EPO''" sample_item]
    by (auto simp: h u e0)
  have b: "insert_search_result_raw sample_hash None None ?t1 7 ''SERPER'' sample_item
             = (Inr 1, ?d', ?t1)"
    using insert_raw_total [OF refl, of sample_hash None ?t1 7 "''SERPER''" sample_item]
    by (auto simp: h u e1)
  show ?thesis using a b by simp
qed

text \<open>On a closed connection \<^verbatim>\<open>cursor()\<close> raises and so does \<^verbatim>\<open>rollback()\<close> in the handler: the
  call raises instead of returning \<open>-1\<close>.\<close>

theorem rollback_raises_counterexample:
  "fst (insert_search_result_raw sample_hash (Some AtCursor)
          (Some (OtherError ''connection already closed'')) empty_table 7 ''EPO'' sample_item)
     = Inl (OtherError ''connection already closed'')"
  by (simp add: insert_search_result_raw_def rollback_then_fail_def sample_hash_def
        sample_item_def)

section \<open>Properties of the report-job queue\<close>




















section \<open>Properties of the pipeline\<close>

lemma insert_search_log_ok:
  "\<forall>n. db_write ev n = None \<Longrightarrow>
   insert_search_log ev q m w
     = (None, w\<lparr>db_writes := Suc (db_writes w), search_log := search_log w @ [(q, m)]\<rparr>)"
  by (simp add: insert_search_log_def db_execute_def Let_def)

lemma log_if_id_ok:
  "\<forall>n. db_write ev n = None \<Longrightarrow> \<exists>w'. log_if_id ev st m w = (None, w')"
  by (simp add: log_if_id_def insert_search_log_ok)

lemma handle_error_sets:
  "handle_error ev step e st w = (out, st', w') \<Longrightarrow>
   str_truthy (error_message st') \<and> raw_data_json st' = raw_data_json st
   \<and> classified_data_json st' = classified_data_json st
   \<and> analysis_results_json st' = analysis_results_json st
   \<and> visualizations_json st' = visualizations_json st
   \<and> final_report st' = final_report st \<and> search_criteria st' = search_criteria st
   \<and> search_query_id st' = search_query_id st"
  by (auto simp: handle_error_def Let_def str_truthy_def split: if_splits prod.splits option.splits)

lemma handle_error_ok:
  "\<forall>n. db_write ev n = None \<Longrightarrow>
   \<exists>w'. handle_error ev step e st w
          = (Inr (''Erro no passo '' @ [CHR 0x27] @ step @ [CHR 0x27] @ '': '' @ exn_str e),
             st\<lparr>error_message :=
                  Some (''Erro no passo '' @ [CHR 0x27] @ step @ [CHR 0x27] @ '': '' @ exn_str e)\<rparr>,
             w')"
  by (simp add: handle_error_def insert_search_log_ok Let_def)

lemma iniciar_returns:
  "\<forall>n. db_write ev n = None \<Longrightarrow> \<exists>out st' w'. iniciar_pesquisa ev st w = (Inr out, st', w')"
  by (auto simp: iniciar_pesquisa_def handle_error_def insert_search_log_ok Let_def)

lemma coletar_returns:
  "\<forall>n. db_write ev n = None \<Longrightarrow> \<exists>out' st' w'. coletar_dados ev out st w = (Inr out', st', w')"
  by (auto simp: coletar_dados_def handle_error_def insert_search_log_ok Let_def
        split: sum.splits)

lemma classificar_returns:
  "\<forall>n. db_write ev n = None \<Longrightarrow>
   \<exists>out' st' w'. classificar_dados ev out st w = (Inr out', st', w')"
  by (auto simp: classificar_dados_def classificar_failed_def log_if_id_def
        insert_search_log_ok Let_def split: sum.splits)

lemma analisar_returns:
  "\<forall>n. db_write ev n = None \<Longrightarrow> \<exists>out' st' w'. analisar_dados ev out st w = (Inr out', st', w')"
  by (auto simp: analisar_dados_def handle_error_def insert_search_log_ok Let_def
        split: sum.splits)

lemma gerar_returns:
  "\<forall>n. db_write ev n = None \<Longrightarrow>
   \<exists>out' st' w'. gerar_visualizacoes ev out st w = (Inr out', st', w')"
  by (auto simp: gerar_visualizacoes_def gerar_failed_def handle_error_def log_if_id_def
        insert_search_log_ok Let_def split: sum.splits)

lemma iniciar_blank:
  "iniciar_pesquisa ev st w = (out, st', w') \<Longrightarrow> blank_payloads st \<Longrightarrow> blank_payloads st'"
  by (auto simp: iniciar_pesquisa_def blank_payloads_def Let_def
        dest!: handle_error_sets split: if_splits prod.splits option.splits)

lemma coletar_skip:
  "str_truthy (error_message st) \<Longrightarrow> coletar_dados ev out st w = (Inr out, st, w)"
  by (simp add: coletar_dados_def)

lemma coletar_post:
  "\<forall>n. db_write ev n = None \<Longrightarrow> coletar_dados ev out st w = (out', st', w') \<Longrightarrow>
   blank_payloads st \<Longrightarrow>
   (str_truthy (error_message st') \<longrightarrow> blank_payloads st')
   \<and> \<not> str_truthy (classified_data_json st') \<and> \<not> str_truthy (analysis_results_json st')"
  by (auto simp: coletar_dados_def blank_payloads_def insert_search_log_ok Let_def
        dest!: handle_error_sets split: if_splits sum.splits)

lemma classificar_skip:
  "\<not> str_truthy (raw_data_json st) \<Longrightarrow> classificar_dados ev out st w = (Inr out, st, w)"
  by (simp add: classificar_dados_def)

lemma classificar_post:
  "classificar_dados ev out st w = (out', st', w') \<Longrightarrow>
   error_message st' = error_message st \<and> analysis_results_json st' = analysis_results_json st"
  by (auto simp: classificar_dados_def classificar_failed_def Let_def
        split: if_splits sum.splits prod.splits option.splits)

lemma analisar_skip:
  "\<not> str_truthy (classified_data_json st) \<Longrightarrow> analisar_dados ev out st w = (Inr out, st, w)"
  by (simp add: analisar_dados_def)

lemma analisar_post:
  "\<forall>n. db_write ev n = None \<Longrightarrow> analisar_dados ev out st w = (out', st', w') \<Longrightarrow>
   error_message st' = error_message st \<or> analysis_results_json st' = analysis_results_json st"
  by (auto simp: analisar_dados_def insert_search_log_ok Let_def
        dest!: handle_error_sets split: if_splits sum.splits)

lemma gerar_skip:
  "\<not> str_truthy (analysis_results_json st) \<Longrightarrow>
   gerar_visualizacoes ev out st w = (Inr out, st, w)"
  by (simp add: gerar_visualizacoes_def)

text \<open>
  C2, as the code has it. Only \<^verbatim>\<open>coletar_dados\<close> looks at \<^verbatim>\<open>error_message\<close>; the three later stages
  return at once when the payload of their predecessor is empty. Take a run that starts with
  \<^verbatim>\<open>raw_data_json\<close>, \<^verbatim>\<open>classified_data_json\<close> and \<^verbatim>\<open>analysis_results_json\<close> empty and in which
  every statement sent to the database succeeds. Then all five stages return, and once
  \<^verbatim>\<open>error_message\<close> is non-empty after a stage, every later stage returns the value it was
  given and leaves the state and the world as they were, so none of \<^verbatim>\<open>classified_data_json\<close>,
  \<^verbatim>\<open>analysis_results_json\<close>, \<^verbatim>\<open>visualizations_json\<close> changes.
\<close>

theorem error_short_circuit:
  assumes blank: "blank_payloads st"
    and dbok: "\<forall>n. db_write ev n = None"
  shows "length (stage_trace ev st w) = 5
         \<and> (\<forall>i j. i < j \<and> j < 5
               \<and> str_truthy (error_message (stage_state (stage_trace ev st w ! i))) \<longrightarrow>
             stage_trace ev st w ! j = stage_trace ev st w ! i)"
proof -
  obtain o1 s1 w1 where r1: "iniciar_pesquisa ev st w = (Inr o1, s1, w1)"
    using iniciar_returns [OF dbok] by blast
  obtain o2 s2 w2 where r2: "coletar_dados ev o1 s1 w1 = (Inr o2, s2, w2)"
    using coletar_returns [OF dbok] by blast
  obtain o3 s3 w3 where r3: "classificar_dados ev o2 s2 w2 = (Inr o3, s3, w3)"
    using classificar_returns [OF dbok] by blast
  obtain o4 s4 w4 where r4: "analisar_dados ev o3 s3 w3 = (Inr o4, s4, w4)"
    using analisar_returns [OF dbok] by blast
  obtain o5 s5 w5 where r5: "gerar_visualizacoes ev o4 s4 w4 = (Inr o5, s5, w5)"
    using gerar_returns [OF dbok] by blast
  have tr: "stage_trace ev st w
              = [(Inr o1, s1, w1), (Inr o2, s2, w2), (Inr o3, s3, w3), (Inr o4, s4, w4),
                 (Inr o5, s5, w5)]"
    by (simp add: stage_trace_def then_stage_def r1 r2 r3 r4 r5)
  have b1: "blank_payloads s1"
    using iniciar_blank [OF r1 blank] .
  have e1: "(o2, s2, w2) = (o1, s1, w1)" if "str_truthy (error_message s1)"
    using coletar_skip [OF that, of ev o1 w1] r2 by simp
  have p2: "(str_truthy (error_message s2) \<longrightarrow> blank_payloads s2)
            \<and> \<not> str_truthy (classified_data_json s2) \<and> \<not> str_truthy (analysis_results_json s2)"
    using coletar_post [OF dbok r2 b1] .
  have e2: "(o3, s3, w3) = (o2, s2, w2)" if "str_truthy (error_message s2)"
  proof -
    have "\<not> str_truthy (raw_data_json s2)"
      using p2 that by (simp add: blank_payloads_def)
    from classificar_skip [OF this, of ev o2 w2] r3 show ?thesis by simp
  qed
  have p3: "error_message s3 = error_message s2
            \<and> analysis_results_json s3 = analysis_results_json s2"
    using classificar_post [OF r3] .
  have e3: "(o4, s4, w4) = (o3, s3, w3)" if "str_truthy (error_message s3)"
  proof -
    have "str_truthy (error_message s2)" using that p3 by simp
    then have "s3 = s2" using e2 by simp
    then have "\<not> str_truthy (classified_data_json s3)" using p2 by simp
    from analisar_skip [OF this, of ev o3 w3] r4 show ?thesis by simp
  qed
  have a3: "\<not> str_truthy (analysis_results_json s3)"
    using p2 p3 by simp
  have e4: "(o5, s5, w5) = (o4, s4, w4)" if "str_truthy (error_message s4)"
  proof -
    have "\<not> str_truthy (analysis_results_json s4)"
    proof (cases "str_truthy (error_message s3)")
      case True
      then have "s4 = s3" using e3 by simp
      then show ?thesis using a3 by simp
    next
      case False
      then have "error_message s4 \<noteq> error_message s3" using that by auto
      then have "analysis_results_json s4 = analysis_results_json s3"
        using analisar_post [OF dbok r4] by simp
      then show ?thesis using a3 by simp
    qed
    from gerar_skip [OF this, of ev o4 w4] r5 show ?thesis by simp
  qed
  have later: "\<forall>i j. i < j \<and> j < 5
               \<and> str_truthy (error_message (stage_state (stage_trace ev st w ! i))) \<longrightarrow>
             stage_trace ev st w ! j = stage_trace ev st w ! i"
  proof (intro allI impI)
    fix i j :: nat
    assume h: "i < j \<and> j < 5 \<and> str_truthy (error_message (stage_state (stage_trace ev st w ! i)))"
    then have "i \<in> {0, 1, 2, 3}" and "j \<in> {1, 2, 3, 4}" by auto
    then show "stage_trace ev st w ! j = stage_trace ev st w ! i"
      using h e1 e2 e3 e4 unfolding tr stage_state_def
      by (elim insertE emptyE; clarsimp; metis)
  qed
  have "length (stage_trace ev st w) = 5"
    by (simp add: tr)
  then show ?thesis
    using later by blast
qed

lemma execute_task_failing_tool:
  "task_agent tsk = Some \<lparr>agent_tools = [failing_tool]\<rparr> \<Longrightarrow>
   fst (execute_task tsk inp pc None r) =
     Inl (RuntimeError (''Falha ao executar a task apos '' @ str_int r @ '' tentativas: boom''))"
proof -
  assume a: "task_agent tsk = Some \<lparr>agent_tools = [failing_tool]\<rparr>"
  have c: "choose_tool [failing_tool] pc None = Some failing_tool"
    by (simp add: choose_tool_def split: option.splits)
  have att: "attempts failing_tool inp (Suc 0) (nat (max 1 r)) None =
     (Inl (if nat (max 1 r) = 0 then None
           else Some ((\<lambda>_. ValueError ''boom'') (Suc 0 + nat (max 1 r) - 1))),
      concat (map (\<lambda>a. [Invoked a, Slept 200]) [Suc 0..<Suc 0 + nat (max 1 r)]))"
    by (rule attempts_all_raise) (simp add: failing_tool_def)
  show ?thesis
    by (simp add: execute_task_def a c att str_exn_opt_def)
qed

lemma execute_task_returning_tool:
  "task_agent tsk = Some \<lparr>agent_tools = tools\<rparr> \<Longrightarrow>
   choose_tool tools pc None = Some (returning_tool cls out) \<Longrightarrow>
   fst (execute_task tsk inp pc None r) = Inr out"
proof -
  assume a: "task_agent tsk = Some \<lparr>agent_tools = tools\<rparr>"
    and c: "choose_tool tools pc None = Some (returning_tool cls out)"
  obtain n where n: "nat (max 1 r) = Suc n"
    by (cases "nat (max 1 r)") auto
  show ?thesis
    by (simp add: execute_task_def a c n returning_tool_def)
qed

lemma str_int_2: "str_int 2 = ''2''"
  by (simp add: str_int_def str_nat.simps digit_char_def)

lemma iniciar_keeps:
  "iniciar_pesquisa ev st w = (out, st', w') \<Longrightarrow>
   search_criteria st' = search_criteria st \<and> final_report st' = final_report st
   \<and> search_query_id st' = search_query_id st"
  by (auto simp: iniciar_pesquisa_def Let_def dest!: handle_error_sets
        split: if_splits prod.splits option.splits)

lemma coletar_keeps:
  "coletar_dados ev out st w = (out', st', w') \<Longrightarrow>
   search_criteria st' = search_criteria st \<and> final_report st' = final_report st
   \<and> search_query_id st' = search_query_id st"
  by (auto simp: coletar_dados_def Let_def dest!: handle_error_sets
        split: if_splits sum.splits prod.splits option.splits)

lemma classificar_keeps:
  "classificar_dados ev out st w = (out', st', w') \<Longrightarrow>
   search_criteria st' = search_criteria st \<and> final_report st' = final_report st
   \<and> search_query_id st' = search_query_id st"
  by (auto simp: classificar_dados_def classificar_failed_def Let_def
        split: if_splits sum.splits prod.splits option.splits)

lemma analisar_keeps:
  "analisar_dados ev out st w = (out', st', w') \<Longrightarrow>
   search_criteria st' = search_criteria st \<and> final_report st' = final_report st
   \<and> search_query_id st' = search_query_id st"
  by (auto simp: analisar_dados_def Let_def dest!: handle_error_sets
        split: if_splits sum.splits prod.splits option.splits)

lemma gerar_keeps:
  "gerar_visualizacoes ev out st w = (out', st', w') \<Longrightarrow>
   search_criteria st' = search_criteria st \<and> final_report st' = final_report st
   \<and> search_query_id st' = search_query_id st"
  by (auto simp: gerar_visualizacoes_def gerar_failed_def Let_def dest!: handle_error_sets
        split: if_splits sum.splits prod.splits option.splits)

lemma run_stages_keeps:
  assumes dbok: "\<forall>n. db_write ev n = None"
    and rs: "run_stages ev st w = (r, st', w')"
  shows "r = None \<and> search_criteria st' = search_criteria st
         \<and> final_report st' = final_report st \<and> search_query_id st' = search_query_id st"
proof -
  obtain o1 s1 w1 where r1: "iniciar_pesquisa ev st w = (Inr o1, s1, w1)"
    using iniciar_returns [OF dbok] by blast
  obtain o2 s2 w2 where r2: "coletar_dados ev o1 s1 w1 = (Inr o2, s2, w2)"
    using coletar_returns [OF dbok] by blast
  obtain o3 s3 w3 where r3: "classificar_dados ev o2 s2 w2 = (Inr o3, s3, w3)"
    using classificar_returns [OF dbok] by blast
  obtain o4 s4 w4 where r4: "analisar_dados ev o3 s3 w3 = (Inr o4, s4, w4)"
    using analisar_returns [OF dbok] by blast
  obtain o5 s5 w5 where r5: "gerar_visualizacoes ev o4 s4 w4 = (Inr o5, s5, w5)"
    using gerar_returns [OF dbok] by blast
  have "r = None \<and> st' = s5"
    using rs by (simp add: run_stages_def stage_trace_def then_stage_def r1 r2 r3 r4 r5)
  then show ?thesis
    using iniciar_keeps [OF r1] coletar_keeps [OF r2] classificar_keeps [OF r3]
      analisar_keeps [OF r4] gerar_keeps [OF r5] by simp
qed



lemma generate_final_report_ok:
  assumes dbok: "\<forall>n. db_write ev n = None"
    and b: "build_report ev st = Inr rep"
    and g: "generate_final_report ev st w = (r, st', w')"
  shows "r = None \<and> error_message st' = error_message st
         \<and> (\<forall>k. k \<noteq> ''pdf_job'' \<longrightarrow> map_of (final_report st') k = map_of rep k)"
  using g
  by (auto simp: generate_final_report_def b Let_def update_conv' enqueue_failed_def
        log_if_id_def insert_search_log_ok [OF dbok] split: prod.splits sum.splits if_splits)





subsection \<open>The sample runs\<close>

lemma share_report_frame:
  "db_writes (share_report r w) = db_writes w"
  "disk_writes (share_report r w) = disk_writes w"
  "length (pool_queue (share_report r w)) = length (pool_queue w)"
  by (auto simp: share_report_def split: list.splits dest: arg_cong [where f = length])

text \<open>What each stage does when the statements it sends succeed, and what the collection
  stage does when its log entry fails.\<close>

lemma iniciar_ok:
  assumes "search_criteria st \<noteq> []" "id_truthy (search_query_id st)"
    and "db_write ev (db_writes w) = None"
  shows "\<exists>out w'. iniciar_pesquisa ev st w = (Inr out, st, w')
           \<and> db_writes w' = Suc (db_writes w) \<and> disk_writes w' = disk_writes w"
  using assms
  by (auto simp: iniciar_pesquisa_def insert_search_log_def db_execute_def id_truthy_def Let_def
        split: option.splits)

lemma coletar_ok:
  assumes "\<not> str_truthy (error_message st)"
    and "\<And>inp. fst (execute_task (create_data_collection_task ev) inp None None 2) = Inr a"
    and "db_write ev (db_writes w) = None"
  shows "\<exists>out w'. coletar_dados ev prev st w = (Inr out, st\<lparr>raw_data_json := Some a\<rparr>, w')
           \<and> db_writes w' = Suc (db_writes w) \<and> disk_writes w' = disk_writes w"
  using assms
  by (simp add: coletar_dados_def insert_search_log_def db_execute_def Let_def)

lemma coletar_exec_fails:
  assumes "\<not> str_truthy (error_message st)"
    and "\<And>inp. fst (execute_task (create_data_collection_task ev) inp None None 2) = Inl e"
    and "id_truthy (search_query_id st)"
    and "db_write ev (db_writes w) = None"
  shows "\<exists>out m w'. coletar_dados ev prev st w = (Inr out, st\<lparr>error_message := Some m\<rparr>, w')
           \<and> m \<noteq> []"
  using assms
  apply (simp add: coletar_dados_def handle_error_def insert_search_log_def db_execute_def Let_def)
  apply (intro exI conjI)
   apply (rule refl)
  apply simp
  done

lemma coletar_log_fails:
  assumes "\<not> str_truthy (error_message st)"
    and "\<And>inp. fst (execute_task (create_data_collection_task ev) inp None None 2) = Inr a"
    and "id_truthy (search_query_id st)"
    and "db_write ev (db_writes w) = Some x"
    and "db_write ev (Suc (db_writes w)) = None"
  shows "\<exists>out m w'. coletar_dados ev prev st w
                      = (Inr out, st\<lparr>raw_data_json := Some a, error_message := Some m\<rparr>, w')
           \<and> m \<noteq> []"
  using assms
  apply (simp add: coletar_dados_def handle_error_def insert_search_log_def db_execute_def Let_def)
  apply (intro exI conjI)
   apply (rule refl)
  apply simp
  done

lemma classificar_ok:
  assumes "str_truthy (raw_data_json st)" "id_truthy (search_query_id st)"
    and "\<And>inp. fst (execute_task (create_data_classification_task ev) inp None None 2) = Inr b"
    and "db_write ev (db_writes w) = None"
  shows "\<exists>out w'. classificar_dados ev prev st w
                    = (Inr out, st\<lparr>classified_data_json := Some b\<rparr>, w')
           \<and> db_writes w' = Suc (db_writes w) \<and> disk_writes w' = disk_writes w"
  using assms
  by (simp add: classificar_dados_def log_if_id_def insert_search_log_def db_execute_def Let_def)

lemma classificar_exec_fails:
  assumes "str_truthy (raw_data_json st)" "id_truthy (search_query_id st)"
    and "\<And>inp. fst (execute_task (create_data_classification_task ev) inp None None 2) = Inl e"
    and "db_write ev (db_writes w) = None" "db_write ev (Suc (db_writes w)) = None"
  shows "\<exists>out w'. classificar_dados ev prev st w = (Inr out, st, w')
           \<and> db_writes w' = Suc (Suc (db_writes w)) \<and> disk_writes w' = disk_writes w"
  using assms
  by (simp add: classificar_dados_def classificar_failed_def log_if_id_def
        insert_search_log_def db_execute_def Let_def)



lemma stage_trace_second:
  assumes "iniciar_pesquisa ev st w = (Inr o1, s1, w1)"
  shows "stage_trace ev st w ! Suc 0 = coletar_dados ev o1 s1 w1"
  by (auto simp: stage_trace_def then_stage_def assms split: prod.splits sum.splits)

lemma stage_trace_third:
  assumes "iniciar_pesquisa ev st w = (Inr o1, s1, w1)"
    and "coletar_dados ev o1 s1 w1 = (Inr o2, s2, w2)"
  shows "stage_trace ev st w ! 2 = classificar_dados ev o2 s2 w2"
  by (auto simp: stage_trace_def then_stage_def assms split: prod.splits sum.splits)


text \<open>A run in which the collector answers and the classifier raises at every attempt.\<close>

lemma run_stages_classifier_fails:
  assumes db: "\<And>n. db_write ev n = None"
    and crit: "search_criteria st \<noteq> []" and qid: "id_truthy (search_query_id st)"
    and err: "\<not> str_truthy (error_message st)"
    and blank: "\<not> str_truthy (classified_data_json st)" "\<not> str_truthy (analysis_results_json st)"
    and c1: "\<And>inp. fst (execute_task (create_data_collection_task ev) inp None None 2) = Inr a"
    and c2: "\<And>inp. fst (execute_task (create_data_classification_task ev) inp None None 2)
                       = Inl e"
    and ne: "a \<noteq> []"
  shows "\<exists>w'. run_stages ev st w = (None, st\<lparr>raw_data_json := Some a\<rparr>, w')"
proof -
  obtain o1 w1 where r1: "iniciar_pesquisa ev st w = (Inr o1, st, w1)"
    using iniciar_ok [OF crit qid, of ev w] db by auto
  let ?s2 = "st\<lparr>raw_data_json := Some a\<rparr>"
  obtain o2 w2 where r2: "coletar_dados ev o1 st w1 = (Inr o2, ?s2, w2)"
    using coletar_ok [OF err c1, of w1 o1] db by auto
  have t2: "str_truthy (raw_data_json ?s2)" "id_truthy (search_query_id ?s2)"
    using ne qid by (simp_all add: str_truthy_def)
  obtain o3 w3 where r3: "classificar_dados ev o2 ?s2 w2 = (Inr o3, ?s2, w3)"
    using classificar_exec_fails [OF t2 c2, of w2 o2] db by auto
  have r4: "analisar_dados ev o3 ?s2 w3 = (Inr o3, ?s2, w3)"
    using blank by (simp add: analisar_skip)
  have r5: "gerar_visualizacoes ev o3 ?s2 w3 = (Inr o3, ?s2, w3)"
    using blank by (simp add: gerar_skip)
  have "run_stages ev st w = (None, ?s2, w3)"
    by (simp add: run_stages_def stage_trace_def then_stage_def r1 r2 r3 r4 r5)
  then show ?thesis by blast
qed

lemma sample_env_fields:
  "json_loads sample_env = sample_loads"
  "agents sample_env = sample_agents"
  "disk_write sample_env = (\<lambda>n. None)"
  "db_write sample_env = (\<lambda>n. None)"
  "last_used_llm_model sample_env = PNone"
  by (simp_all add: sample_env_def)


lemma failing_classifier_env_fields:
  "json_loads failing_classifier_env = sample_loads"
  "disk_write failing_classifier_env = (\<lambda>n. None)"
  "db_write failing_classifier_env = (\<lambda>n. None)"
  "last_used_llm_model failing_classifier_env = PNone"
  by (simp_all add: failing_classifier_env_def sample_env_fields)

lemma failing_collector_env_fields:
  "json_loads failing_collector_env = sample_loads"
  "db_write failing_collector_env = (\<lambda>n. None)"
  by (simp_all add: failing_collector_env_def sample_env_fields)


lemma db_blip_env_fields:
  "json_loads db_blip_env = sample_loads"
  "agents db_blip_env = sample_agents"
  "db_write db_blip_env = (\<lambda>n. if n = 1 then Some (OSError ''connection reset'') else None)"
  by (simp_all add: db_blip_env_def sample_env_def)

lemmas task_defs =
  create_data_collection_task_def create_data_classification_task_def
  create_analysis_task_def create_visualization_task_def sample_agents_def

lemma choose_first: "choose_tool (t # ts) None None = Some t"
  by (simp add: choose_tool_def)

lemma choose_by_class:
  "choose_tool [returning_tool ''DataAnalysisTool'' a, returning_tool ''VisualizationTool'' b]
     (Some ''DataAnalysisTool'') None = Some (returning_tool ''DataAnalysisTool'' a)"
  "choose_tool [returning_tool ''DataAnalysisTool'' a, returning_tool ''VisualizationTool'' b]
     (Some ''VisualizationTool'') None = Some (returning_tool ''VisualizationTool'' b)"
  by (simp_all add: choose_tool_def isinstance_def returning_tool_def)

lemma coordinator_tasks:
  assumes "insight_coordinator (agents ev) =
             \<lparr>agent_tools = [returning_tool ''DataAnalysisTool'' ''{}'',
                             returning_tool ''VisualizationTool'' ''{}'']\<rparr>"
  shows "fst (execute_task (create_analysis_task ev) inp (Some ''DataAnalysisTool'') None 2)
           = Inr ''{}''"
    and "fst (execute_task (create_visualization_task ev) inp (Some ''VisualizationTool'') None 1)
           = Inr ''{}''"
  by (rule execute_task_returning_tool [where cls = "''DataAnalysisTool''"],
      simp add: create_analysis_task_def assms, rule choose_by_class,
      rule execute_task_returning_tool [where cls = "''VisualizationTool''"],
      simp add: create_visualization_task_def assms, rule choose_by_class)

lemma returning_collector:
  assumes "data_collector (agents ev) = \<lparr>agent_tools = [returning_tool cls out]\<rparr>"
  shows "fst (execute_task (create_data_collection_task ev) inp None None 2) = Inr out"
  by (rule execute_task_returning_tool [where cls = cls],
      simp add: create_data_collection_task_def assms, rule choose_first)

lemma returning_classifier:
  assumes "data_classifier (agents ev) = \<lparr>agent_tools = [returning_tool cls out]\<rparr>"
  shows "fst (execute_task (create_data_classification_task ev) inp None None 2) = Inr out"
  by (rule execute_task_returning_tool [where cls = cls],
      simp add: create_data_classification_task_def assms, rule choose_first)

lemma failing_collector:
  assumes "data_collector (agents ev) = \<lparr>agent_tools = [failing_tool]\<rparr>"
  shows "fst (execute_task (create_data_collection_task ev) inp None None 2)
           = Inl (RuntimeError ''Falha ao executar a task apos 2 tentativas: boom'')"
  using execute_task_failing_tool [of "create_data_collection_task ev" inp None 2]
  by (simp add: create_data_collection_task_def assms str_int_2)

lemma failing_classifier:
  assumes "data_classifier (agents ev) = \<lparr>agent_tools = [failing_tool]\<rparr>"
  shows "fst (execute_task (create_data_classification_task ev) inp None None 2)
           = Inl (RuntimeError ''Falha ao executar a task apos 2 tentativas: boom'')"
  using execute_task_failing_tool [of "create_data_classification_task ev" inp None 2]
  by (simp add: create_data_classification_task_def assms str_int_2)

lemma derived_agents:
  "agents null_collector_env =
     sample_agents\<lparr>data_collector :=
       \<lparr>agent_tools = [returning_tool ''IPDataCollectorTool'' ''null'']\<rparr>\<rparr>"
  "agents failing_collector_env = sample_agents\<lparr>data_collector := \<lparr>agent_tools = [failing_tool]\<rparr>\<rparr>"
  "agents failing_classifier_env = sample_agents\<lparr>data_classifier := \<lparr>agent_tools = [failing_tool]\<rparr>\<rparr>"
  by (simp_all add: null_collector_env_def failing_collector_env_def failing_classifier_env_def)

lemmas agent_defs = sample_env_fields derived_agents sample_agents_def



lemma db_blip_exec:
  "fst (execute_task (create_data_collection_task db_blip_env) inp None None 2) = Inr ''[1, 2]''"
  "fst (execute_task (create_data_classification_task db_blip_env) inp None None 2) = Inr ''[1, 2]''"
  by (rule returning_collector returning_classifier,
      simp add: db_blip_env_fields sample_agents_def)+


lemma failing_collector_exec:
  "fst (execute_task (create_data_collection_task failing_collector_env) inp None None 2)
     = Inl (RuntimeError ''Falha ao executar a task apos 2 tentativas: boom'')"
  "fst (execute_task (create_data_classification_task failing_collector_env) inp None None 2)
     = Inr ''[1, 2]''"
  by (rule failing_collector returning_classifier, simp add: agent_defs)+

lemma failing_classifier_exec:
  "fst (execute_task (create_data_collection_task failing_classifier_env) inp None None 2)
     = Inr ''[1, 2]''"
  "fst (execute_task (create_data_classification_task failing_classifier_env) inp None None 2)
     = Inl (RuntimeError ''Falha ao executar a task apos 2 tentativas: boom'')"
  by (rule returning_collector failing_classifier, simp add: agent_defs)+

lemma failing_collector_coordinator_exec:
  "fst (execute_task (create_analysis_task failing_collector_env) inp (Some ''DataAnalysisTool'')
          None 2) = Inr ''{}''"
  by (rule coordinator_tasks, simp add: agent_defs)

lemma fresh_state_fields:
  "search_criteria fresh_state = ''ledger''"
  "search_query_id fresh_state = Some 7"
  "error_message fresh_state = None"
  "raw_data_json fresh_state = None"
  "classified_data_json fresh_state = None"
  "analysis_results_json fresh_state = None"
  "final_report fresh_state = []"
  by (simp_all add: fresh_state_def default_state_def)

lemma preloaded_state_fields:
  "search_criteria preloaded_state = ''ledger''"
  "search_query_id preloaded_state = Some 7"
  "error_message preloaded_state = None"
  "raw_data_json preloaded_state = Some ''[]''"
  "classified_data_json preloaded_state = None"
  by (simp_all add: preloaded_state_def fresh_state_def default_state_def)

lemma initial_world_counts:
  "db_writes initial_world = 0" "disk_writes initial_world = 0"
  by (simp_all add: initial_world_def)



lemma run_stages_failing_classifier:
  "fst (snd (run_stages failing_classifier_env fresh_state initial_world)) =
     fresh_state\<lparr>raw_data_json := Some ''[1, 2]''\<rparr>"
  using run_stages_classifier_fails [of failing_classifier_env fresh_state "''[1, 2]''"
          "RuntimeError ''Falha ao executar a task apos 2 tentativas: boom''" initial_world]
  by (auto simp: failing_classifier_exec failing_classifier_env_fields fresh_state_fields
        id_truthy_def str_truthy_def)




theorem error_short_circuit_witness:
  "blank_payloads fresh_state
   \<and> length (stage_trace failing_collector_env fresh_state initial_world) = 5
   \<and> str_truthy (error_message
        (stage_state (stage_trace failing_collector_env fresh_state initial_world ! 1)))
   \<and> stage_trace failing_collector_env fresh_state initial_world ! 4
       = stage_trace failing_collector_env fresh_state initial_world ! 1"
proof -
  have b: "blank_payloads fresh_state"
    by (simp add: blank_payloads_def fresh_state_fields str_truthy_def)
  have dbok: "\<forall>n. db_write failing_collector_env n = None"
    by (simp add: failing_collector_env_fields)
  obtain o1 w1 where r1: "iniciar_pesquisa failing_collector_env fresh_state initial_world
                            = (Inr o1, fresh_state, w1)"
    using iniciar_ok [of fresh_state failing_collector_env initial_world] dbok
    by (auto simp: fresh_state_fields id_truthy_def)
  obtain o2 m w2 where r2: "coletar_dados failing_collector_env o1 fresh_state w1
                              = (Inr o2, fresh_state\<lparr>error_message := Some m\<rparr>, w2)"
    and m: "m \<noteq> []"
    using coletar_exec_fails [of fresh_state failing_collector_env _ w1 o1] dbok
    by (auto simp: fresh_state_fields failing_collector_exec id_truthy_def str_truthy_def)
  have e: "str_truthy (error_message
        (stage_state (stage_trace failing_collector_env fresh_state initial_world ! 1)))"
    using m by (simp add: stage_trace_second [OF r1] r2 stage_state_def str_truthy_def)
  show ?thesis
    using error_short_circuit [OF b dbok, of initial_world] b e by simp
qed

text \<open>A run started with raw data already in the state: the collector fails and the error
  is recorded, yet the classification stage runs and writes \<^verbatim>\<open>classified_data_json\<close>. And a
  run started blank in which the log entry of the collection stage raises: the handler
  records the error after the raw data has been stored, and the classification stage runs.\<close>

theorem later_stage_runs_counterexample:
  "(str_truthy (error_message
      (stage_state (stage_trace failing_collector_env preloaded_state initial_world ! 1)))
    \<and> classified_data_json
         (stage_state (stage_trace failing_collector_env preloaded_state initial_world ! 1)) = None
    \<and> classified_data_json
         (stage_state (stage_trace failing_collector_env preloaded_state initial_world ! 2))
        = Some ''[1, 2]'')
   \<and> (blank_payloads fresh_state
      \<and> str_truthy (error_message
          (stage_state (stage_trace db_blip_env fresh_state initial_world ! 1)))
      \<and> classified_data_json
           (stage_state (stage_trace db_blip_env fresh_state initial_world ! 1)) = None
      \<and> classified_data_json
           (stage_state (stage_trace db_blip_env fresh_state initial_world ! 2))
          = Some ''[1, 2]'')"
proof -
  have dbok: "\<forall>n. db_write failing_collector_env n = None"
    by (simp add: failing_collector_env_fields)
  obtain o1 w1 where r1: "iniciar_pesquisa failing_collector_env preloaded_state initial_world
                            = (Inr o1, preloaded_state, w1)"
    using iniciar_ok [of preloaded_state failing_collector_env initial_world] dbok
    by (auto simp: preloaded_state_fields id_truthy_def)
  obtain o2 m w2 where r2: "coletar_dados failing_collector_env o1 preloaded_state w1
                              = (Inr o2, preloaded_state\<lparr>error_message := Some m\<rparr>, w2)"
    and m: "m \<noteq> []"
    using coletar_exec_fails [of preloaded_state failing_collector_env _ w1 o1] dbok
    by (auto simp: preloaded_state_fields failing_collector_exec id_truthy_def str_truthy_def)
  obtain o3 w3 where r3: "classificar_dados failing_collector_env o2
                             (preloaded_state\<lparr>error_message := Some m\<rparr>) w2
                           = (Inr o3, preloaded_state\<lparr>error_message := Some m,
                                        classified_data_json := Some ''[1, 2]''\<rparr>, w3)"
    using classificar_ok [of "preloaded_state\<lparr>error_message := Some m\<rparr>" failing_collector_env
            "''[1, 2]''" w2 o2] dbok
    by (auto simp: preloaded_state_fields failing_collector_exec id_truthy_def str_truthy_def)
  have a: "str_truthy (error_message
      (stage_state (stage_trace failing_collector_env preloaded_state initial_world ! 1)))
    \<and> classified_data_json
         (stage_state (stage_trace failing_collector_env preloaded_state initial_world ! 1)) = None
    \<and> classified_data_json
         (stage_state (stage_trace failing_collector_env preloaded_state initial_world ! 2))
        = Some ''[1, 2]''"
    using m
    by (simp add: stage_trace_second [OF r1] stage_trace_third [OF r1 r2] r2 r3 stage_state_def
          str_truthy_def preloaded_state_fields)
  have b: "blank_payloads fresh_state"
    by (simp add: blank_payloads_def fresh_state_fields str_truthy_def)
  obtain p1 v1 where q1: "iniciar_pesquisa db_blip_env fresh_state initial_world
                            = (Inr p1, fresh_state, v1)"
    and n1: "db_writes v1 = 1"
    using iniciar_ok [of fresh_state db_blip_env initial_world]
    by (auto simp: fresh_state_fields db_blip_env_fields initial_world_counts id_truthy_def)
  obtain p2 k v2 where q2: "coletar_dados db_blip_env p1 fresh_state v1
                              = (Inr p2, fresh_state\<lparr>raw_data_json := Some ''[1, 2]'',
                                                      error_message := Some k\<rparr>, v2)"
    and k: "k \<noteq> []"
    using coletar_log_fails [of fresh_state db_blip_env "''[1, 2]''" v1
            "OSError ''connection reset''" p1]
    by (auto simp: fresh_state_fields db_blip_env_fields db_blip_exec n1 id_truthy_def
          str_truthy_def)
  let ?s2 = "fresh_state\<lparr>raw_data_json := Some ''[1, 2]'', error_message := Some k\<rparr>"
  have "\<exists>r v3. classificar_dados db_blip_env p2 ?s2 v2
                 = (r, ?s2\<lparr>classified_data_json := Some ''[1, 2]''\<rparr>, v3)"
    by (auto simp: classificar_dados_def classificar_failed_def db_blip_exec str_truthy_def
          Let_def split: prod.splits option.splits)
  then obtain r v3 where q3: "classificar_dados db_blip_env p2 ?s2 v2
                 = (r, ?s2\<lparr>classified_data_json := Some ''[1, 2]''\<rparr>, v3)"
    by blast
  have c: "str_truthy (error_message
          (stage_state (stage_trace db_blip_env fresh_state initial_world ! 1)))
      \<and> classified_data_json
           (stage_state (stage_trace db_blip_env fresh_state initial_world ! 1)) = None
      \<and> classified_data_json
           (stage_state (stage_trace db_blip_env fresh_state initial_world ! 2))
          = Some ''[1, 2]''"
    using k
    by (simp add: stage_trace_second [OF q1] stage_trace_third [OF q1 q2] q2 q3 stage_state_def
          str_truthy_def fresh_state_fields)
  show ?thesis
    using a b c by simp
qed

lemma generate_final_report_enqueues:
  assumes b: "build_report ev st = Inr rep"
    and d: "\<forall>n. disk_write ev n = None"
    and dbok: "\<forall>n. db_write ev n = None"
    and g: "generate_final_report ev st w = (r, st', w')"
  shows "map_of (final_report st') ''pdf_job'' \<noteq> None
         \<and> length (pool_queue w') = Suc (length (pool_queue w))"
  using g
  by (auto simp: generate_final_report_def b d enqueue_pdf_job_def persist_job_meta_def
        mark_completed_def log_if_id_def insert_search_log_ok [OF dbok]
        update_search_query_status_def db_execute_def dbok Let_def share_report_frame
        update_conv' split: if_splits)

text \<open>
  C4 at a run whose collector returns two items and whose classifier raises at every attempt:
  the report is built with \<^verbatim>\<open>data_collected = 2\<close> and a render job is queued, but
  \<^verbatim>\<open>error_message\<close> is still \<^verbatim>\<open>None\<close> and the report has no such key. \<^verbatim>\<open>classificar_dados\<close> logs
  the failure and returns its text; it does not call \<^verbatim>\<open>_handle_error\<close>, which
  \<^verbatim>\<open>coletar_dados\<close>, \<^verbatim>\<open>analisar_dados\<close> and \<^verbatim>\<open>gerar_visualizacoes\<close> do.
\<close>

theorem classification_failure_not_recorded:
  "\<exists>report. fst (kickoff failing_classifier_env (Some fresh_state) initial_world) = Inr report
     \<and> error_message (fst (snd (kickoff failing_classifier_env (Some fresh_state) initial_world)))
         = None
     \<and> map_of report ''data_collected'' = Some (PInt 2)
     \<and> map_of report ''error_message'' = None
     \<and> map_of report ''pdf_job'' \<noteq> None
     \<and> pool_queue (snd (snd (kickoff failing_classifier_env (Some fresh_state) initial_world)))
         \<noteq> []"
proof -
  let ?st1 = "fresh_state\<lparr>raw_data_json := Some ''[1, 2]''\<rparr>"
  have dbok: "\<forall>n. db_write failing_classifier_env n = None"
    by (simp add: failing_classifier_env_fields)
  obtain r1 w1 where rs: "run_stages failing_classifier_env fresh_state initial_world
                            = (r1, ?st1, w1)"
    using run_stages_failing_classifier
    by (cases "run_stages failing_classifier_env fresh_state initial_world") auto
  have r1: "r1 = None"
    using run_stages_keeps [OF dbok rs] by simp
  have b: "build_report failing_classifier_env ?st1 =
             Inr [(''success'', PBool True), (''flow_id'', PInt 7),
                  (''search_criteria'', PStr ''ledger''), (''data_collected'', PInt 2),
                  (''classified_data'', PList []), (''analysis_results'', PDict []),
                  (''visualizations'', PDict []), (''llm_model'', PNone),
                  (''insights'', PStr ''Nenhum insight gerado.'')]"
    by (simp add: build_report_def safe_json_load_def failing_classifier_env_fields
          sample_loads_def fresh_state_def default_state_def opt_int_def Let_def)
  obtain r2 st2 w2 where g: "generate_final_report failing_classifier_env ?st1 w1 = (r2, st2, w2)"
    by (cases "generate_final_report failing_classifier_env ?st1 w1")
  have e: "r2 = None \<and> error_message st2 = None
           \<and> map_of (final_report st2) ''data_collected'' = Some (PInt 2)
           \<and> map_of (final_report st2) ''error_message'' = None"
    using generate_final_report_ok [OF dbok b g] by (simp add: fresh_state_fields)
  have d: "\<forall>n. disk_write failing_classifier_env n = None"
    by (simp add: failing_classifier_env_fields)
  have p: "map_of (final_report st2) ''pdf_job'' \<noteq> None \<and> pool_queue w2 \<noteq> []"
    using generate_final_report_enqueues [OF b d dbok g] by auto
  have cl: "db_close failing_classifier_env w2
              = (None, w2\<lparr>db_writes := Suc (db_writes w2), db_closed := True\<rparr>)"
    by (simp add: db_close_def db_execute_def dbok Let_def)
  show ?thesis
    apply (rule exI [of _ "final_report st2"])
    using e p by (simp add: kickoff_def rs r1 g cl)
qed

end
